theory Spec2Isabelle
  imports Main
begin

section \<open>The dashboard component \<open>OutlookScraper\<close>: shared vocabulary\<close>

text \<open>
  The component is a single React function whose \<open>useState\<close> slices are grouped here
  by feature. Every handler is an \<open>async\<close> function; it is modelled as one atomic state
  transformer that takes the outcome of each \<open>fetch\<close> it awaits as an argument. The
  requests a handler sends, the calls to \<open>notify\<close> and the lines written to the console
  are appended to the log of the state, in the order the code performs them. Two
  handlers that run at the same time are not interleaved.
\<close>

text \<open>
  The outcome of \<open>await fetch(...)\<close> followed by \<open>await res.json()\<close>: the promise
  rejects (\<open>NetworkError\<close>), the status is not 2xx (\<open>HttpError\<close> with the digits of the
  status; \<open>res.ok\<close> is false), the body is not JSON (\<open>BadJson\<close>; \<open>res.json()\<close> throws),
  or the parsed body. Where a handler does not read the body the payload is \<open>unit\<close>.
\<close>

datatype 'a response = NetworkError | HttpError string | BadJson | Ok 'a

text \<open>
  \<open>e.message\<close> of the error a handler catches: \<open>HTTP\<close> and the status for the error
  the handler throws itself; for a rejected fetch and a failed parse the text is the
  browser's, written here as Chromium words it.
\<close>

fun error_message :: "'a response \<Rightarrow> string" where
  "error_message (HttpError st) = ''HTTP '' @ st"
| "error_message NetworkError = ''Failed to fetch''"
| "error_message BadJson = ''Unexpected end of JSON input''"
| "error_message (Ok _) = []"

fun failed :: "'a response \<Rightarrow> bool" where
  "failed (Ok _) = False"
| "failed _ = True"

datatype jval = JNull | JBool bool | JNum int | JStr string | JList "string list"

text \<open>
  The query of a URL, as \<open>URLSearchParams\<close> holds it. A value is text; a number
  (\<open>JNum\<close>) stands for its decimal text, as \<open>String(skip)\<close> writes it.
\<close>

type_synonym params = "(string \<times> jval) list"

text \<open>\<open>URLSearchParams.set\<close>: replace the value of an existing key, append otherwise.\<close>

fun params_set :: "params \<Rightarrow> string \<Rightarrow> jval \<Rightarrow> params" where
  "params_set [] k v = [(k, v)]"
| "params_set ((k', v') # ps) k v =
     (if k' = k then (k, v) # ps else (k', v') # params_set ps k v)"

datatype request =
    Get string params
  | Post string "(string \<times> jval) list"
  | Patch string "(string \<times> jval) list"
  | Delete string "(string \<times> jval) list"

fun is_mutation :: "request \<Rightarrow> bool" where
  "is_mutation (Get _ _) = False"
| "is_mutation _ = True"

datatype effect =
    Fetch request
  | Notify string string
  | ConsoleError string

fun is_notify :: "effect \<Rightarrow> bool" where
  "is_notify (Notify _ _) = True"
| "is_notify _ = False"

fun mutations :: "effect list \<Rightarrow> request list" where
  "mutations [] = []"
| "mutations (Fetch r # es) = (if is_mutation r then r # mutations es else mutations es)"
| "mutations (_ # es) = mutations es"

fun fetches_of :: "effect list \<Rightarrow> request list" where
  "fetches_of [] = []"
| "fetches_of (Fetch r # es) = r # fetches_of es"
| "fetches_of (_ # es) = fetches_of es"

section \<open>Auto-scrape scheduler\<close>

text \<open>
  \<open>schedulerForm\<close>; \<open>interval_minutes\<close> is \<open>None\<close> when \<open>parseInt\<close> gave \<open>NaN\<close>,
  which \<open>JSON.stringify\<close> writes as \<open>null\<close>.
\<close>

record scheduler_form =
  interval_minutes :: "int option"
  folder :: string
  subject_filter :: string

text \<open>The body of \<open>GET /api/scheduler/status\<close>; an absent or null field is \<open>None\<close>.\<close>

record scheduler_json =
  sj_enabled :: "bool option"
  sj_interval_minutes :: "int option"
  sj_folder :: "string option"
  sj_subject_filter :: "string option"
  sj_time_until_next_run_seconds :: "int option"

record sched_state =
  schedulerConfig :: "scheduler_json option"
  schedulerForm :: scheduler_form
  schedulerCountdown :: "int option"
  schedulerLoading :: bool
  sched_log :: "effect list"

text \<open>\<open>x || d\<close> on an optional number and an optional string.\<close>

fun or_int :: "int option \<Rightarrow> int \<Rightarrow> int" where
  "or_int None d = d"
| "or_int (Some n) d = (if n = 0 then d else n)"

fun or_str :: "string option \<Rightarrow> string \<Rightarrow> string" where
  "or_str None d = d"
| "or_str (Some x) d = (if x = [] then d else x)"

definition loadSchedulerConfig :: "scheduler_json response \<Rightarrow> sched_state \<Rightarrow> sched_state" where
  "loadSchedulerConfig r s =
     (let s1 = s\<lparr>sched_log := sched_log s @ [Fetch (Get ''/api/scheduler/status'' [])]\<rparr>
      in case r of
           Ok data \<Rightarrow>
             s1\<lparr>schedulerConfig := Some data,
                schedulerForm :=
                  \<lparr>interval_minutes = Some (or_int (sj_interval_minutes data) 30),
                   folder = or_str (sj_folder data) ''INBOX'',
                   subject_filter = or_str (sj_subject_filter data) ''''\<rparr>,
                schedulerCountdown := sj_time_until_next_run_seconds data\<rparr>
         | _ \<Rightarrow> s1)"

text \<open>\<open>const isEnabled = sc?.enabled || false\<close>\<close>

definition isEnabled :: "sched_state \<Rightarrow> bool" where
  "isEnabled s =
     (case schedulerConfig s of
        None \<Rightarrow> False
      | Some sc \<Rightarrow> (case sj_enabled sc of None \<Rightarrow> False | Some b \<Rightarrow> b))"

text \<open>
  The \<open>onClick\<close> of the toggle switch. \<open>r\<close> is the outcome of the POST (its body is not
  read, so the payload type is \<open>unit\<close>); \<open>r2\<close> is the outcome of the status request
  that \<open>loadSchedulerConfig\<close> sends after a successful POST.
\<close>

definition toggle_scheduler ::
  "unit response \<Rightarrow> scheduler_json response \<Rightarrow> sched_state \<Rightarrow> sched_state" where
  "toggle_scheduler r r2 s =
     (if schedulerLoading s then s
      else
        let s1 = s\<lparr>schedulerLoading := True,
                   sched_log := sched_log s @
                     [Fetch (Post ''/api/scheduler/config''
                        [(''enabled'', JBool (\<not> isEnabled s)),
                         (''interval_minutes'',
                            (case interval_minutes (schedulerForm s) of
                               None \<Rightarrow> JNull | Some n \<Rightarrow> JNum n)),
                         (''folder'',
                            JStr (if folder (schedulerForm s) = [] then ''INBOX''
                                  else folder (schedulerForm s))),
                         (''subject_filter'',
                            (if subject_filter (schedulerForm s) = [] then JNull
                             else JStr (subject_filter (schedulerForm s))))])]\<rparr>;
            s2 = (case r of
                    Ok _ \<Rightarrow>
                      loadSchedulerConfig r2
                        (s1\<lparr>sched_log := sched_log s1 @
                              [Notify (if isEnabled s then ''Scheduler disabled''
                                       else ''Scheduler enabled'') ''success'']\<rparr>)
                  | _ \<Rightarrow>
                      s1\<lparr>sched_log := sched_log s1 @
                            [Notify ''Failed to toggle scheduler'' ''error'']\<rparr>)
        in s2\<lparr>schedulerLoading := False\<rparr>)"

text \<open>The scheduler slices when the component mounts.\<close>

definition sched_init :: sched_state where
  "sched_init =
     \<lparr>schedulerConfig = None,
      schedulerForm = \<lparr>interval_minutes = Some 30, folder = ''INBOX'', subject_filter = ''''\<rparr>,
      schedulerCountdown = None,
      schedulerLoading = False,
      sched_log = []\<rparr>"

text \<open>The effects a handler added to a log that started as \<open>old\<close>.\<close>

definition added :: "effect list \<Rightarrow> effect list \<Rightarrow> effect list" where
  "added old new = drop (length old) new"

lemma mutations_append: "mutations (xs @ ys) = mutations xs @ mutations ys"
  by (induction xs rule: mutations.induct) auto

lemma fetches_of_append: "fetches_of (xs @ ys) = fetches_of xs @ fetches_of ys"
  by (induction xs rule: fetches_of.induct) auto

lemma loadSchedulerConfig_log:
  "sched_log (loadSchedulerConfig r s) = sched_log s @ [Fetch (Get ''/api/scheduler/status'' [])]"
  by (cases r) (simp_all add: loadSchedulerConfig_def)

text \<open>
  C7. Toggling the scheduler (while no toggle is in flight) sends the new enabled flag
  together with the form's interval, folder and subject filter in one POST to
  \<open>/api/scheduler/config\<close>, and that POST is the only mutating request the toggle
  issues, whatever the server answers: flag and settings are never persisted by two
  requests. The flag sent is the negation of the flag of the configuration last
  loaded, which counts as disabled while no configuration is loaded or its flag is
  absent. An empty folder is sent as \<open>INBOX\<close>, an empty subject filter as \<open>null\<close>.
\<close>

theorem C7_toggle_single_combined_update:
  "\<not> schedulerLoading s \<Longrightarrow>
   mutations (added (sched_log s) (sched_log (toggle_scheduler r r2 s))) =
     [Post ''/api/scheduler/config''
        [(''enabled'',
            JBool (case schedulerConfig s of
                     None \<Rightarrow> True
                   | Some sc \<Rightarrow> (case sj_enabled sc of None \<Rightarrow> True | Some b \<Rightarrow> \<not> b))),
         (''interval_minutes'',
            (case interval_minutes (schedulerForm s) of None \<Rightarrow> JNull | Some n \<Rightarrow> JNum n)),
         (''folder'',
            JStr (if folder (schedulerForm s) = [] then ''INBOX'' else folder (schedulerForm s))),
         (''subject_filter'',
            (if subject_filter (schedulerForm s) = [] then JNull
             else JStr (subject_filter (schedulerForm s))))]]"
  by (cases r)
     (simp_all add: toggle_scheduler_def Let_def added_def loadSchedulerConfig_log
        isEnabled_def split: option.split)

text \<open>
  The scenario of the specification: the scheduler is disabled and the form holds
  interval 30; the toggle sends \<open>{enabled: true, interval_minutes: 30, folder,
  subject_filter}\<close> as a single POST. The server then reports the scheduler enabled,
  the user sets the interval to 15 and a subject filter, and the next toggle sends
  \<open>enabled: false\<close> with those values, again as a single POST.
\<close>

definition enabled_json :: scheduler_json where
  "enabled_json =
     \<lparr>sj_enabled = Some True, sj_interval_minutes = Some 30, sj_folder = Some ''INBOX'',
      sj_subject_filter = None, sj_time_until_next_run_seconds = Some 1800\<rparr>"

definition sched_enabled :: sched_state where
  "sched_enabled =
     (toggle_scheduler (Ok ()) (Ok enabled_json) sched_init)
       \<lparr>schedulerForm :=
          \<lparr>interval_minutes = Some 15, folder = ''INBOX'', subject_filter = ''resume''\<rparr>\<rparr>"

theorem C7_toggle_witness:
  "\<not> schedulerLoading sched_init \<and>
   mutations (added (sched_log sched_init)
       (sched_log (toggle_scheduler (Ok ()) (Ok enabled_json) sched_init))) =
     [Post ''/api/scheduler/config''
        [(''enabled'', JBool True), (''interval_minutes'', JNum 30),
         (''folder'', JStr ''INBOX''), (''subject_filter'', JNull)]] \<and>
   \<not> schedulerLoading sched_enabled \<and>
   mutations (added (sched_log sched_enabled)
       (sched_log (toggle_scheduler (HttpError ''500'') NetworkError sched_enabled))) =
     [Post ''/api/scheduler/config''
        [(''enabled'', JBool False), (''interval_minutes'', JNum 15),
         (''folder'', JStr ''INBOX''), (''subject_filter'', JStr ''resume'')]]"
proof -
  have en: "schedulerConfig sched_enabled = Some enabled_json"
    "\<not> schedulerLoading sched_enabled"
    "schedulerForm sched_enabled =
       \<lparr>interval_minutes = Some 15, folder = ''INBOX'', subject_filter = ''resume''\<rparr>"
    by (simp_all add: sched_enabled_def toggle_scheduler_def loadSchedulerConfig_def Let_def
          sched_init_def)
  have flag: "sj_enabled enabled_json = Some True"
    by (simp add: enabled_json_def)
  show ?thesis
    using C7_toggle_single_combined_update [of sched_init "Ok ()" "Ok enabled_json"]
      C7_toggle_single_combined_update [of sched_enabled "HttpError ''500''" NetworkError]
      en flag
    by (simp add: sched_init_def)
qed


section \<open>Folders, statistics, attachments, candidates, jobs and storage\<close>

text \<open>A parsed JSON document whose content the component only stores and renders.\<close>

datatype json = Json string

text \<open>
  A candidate as the client holds it; the fields the client never changes are left out.
  \<open>cand_notes\<close> and \<open>cand_tags\<close> are \<open>None\<close> when the record has no such field
  (\<open>c.notes || ""\<close>, \<open>c.tags || []\<close>). The id is written as it appears in a URL.
\<close>

record candidate =
  cand_id :: string
  cand_name :: string
  cand_notes :: "string option"
  cand_tags :: "string list option"

record recruit_state =
  folders :: "json list"
  stats :: "json option"
  storedAttachments :: "json list"
  loading :: bool
  error :: "string option"
  candidates :: "candidate list"
  dbStats_candidates :: nat
  jobs :: "json list"
  matchResults :: "json list"
  storageHealth :: "json option"
  view :: string
  selectedCandidateId :: "string option"
  candidateProfile :: "candidate option"
  selectedCandidate :: "candidate option"
  profileLoading :: bool
  profileNotesSaved :: bool
  candidateNotesDraft :: "string \<rightharpoonup> string"
  candidateTagInput :: "string \<rightharpoonup> string"
  clearConfirmText :: string
  showClearModal :: bool
  log :: "effect list"

definition send :: "request \<Rightarrow> recruit_state \<Rightarrow> recruit_state" where
  "send q s = s\<lparr>log := log s @ [Fetch q]\<rparr>"

definition notify :: "string \<Rightarrow> string \<Rightarrow> recruit_state \<Rightarrow> recruit_state" where
  "notify msg ty s = s\<lparr>log := log s @ [Notify msg ty]\<rparr>"

definition console_error :: "string \<Rightarrow> recruit_state \<Rightarrow> recruit_state" where
  "console_error msg s = s\<lparr>log := log s @ [ConsoleError msg]\<rparr>"

fun or_list :: "'a list option \<Rightarrow> 'a list" where
  "or_list None = []"
| "or_list (Some xs) = xs"

subsection \<open>Loaders\<close>

definition loadFolders :: "json list response \<Rightarrow> recruit_state \<Rightarrow> recruit_state" where
  "loadFolders r s =
     (let s1 = send (Get ''/api/folders'' []) s
      in case r of
           Ok data \<Rightarrow> s1\<lparr>folders := data\<rparr>
         | _ \<Rightarrow> console_error ''Failed to load folders:'' s1)"

definition loadStats :: "json response \<Rightarrow> recruit_state \<Rightarrow> recruit_state" where
  "loadStats r s =
     (let s1 = send (Get ''/api/stats'' []) (s\<lparr>loading := True, error := None\<rparr>);
          s2 = (case r of
                  Ok data \<Rightarrow> s1\<lparr>stats := Some data\<rparr>
                | _ \<Rightarrow> notify ''Failed to load stats'' ''error'' s1)
      in s2\<lparr>loading := False\<rparr>)"

definition loadAttachments ::
  "string \<Rightarrow> json list response \<Rightarrow> recruit_state \<Rightarrow> recruit_state" where
  "loadAttachments typeFilter r s =
     (let ps = (if typeFilter \<noteq> [] \<and> typeFilter \<noteq> ''all''
                then params_set [] ''file_type'' (JStr typeFilter) else []);
          s1 = send (Get ''/api/attachments'' ps) (s\<lparr>loading := True\<rparr>);
          s2 = (case r of
                  Ok data \<Rightarrow> s1\<lparr>storedAttachments := data\<rparr>
                | _ \<Rightarrow> notify ''Failed to load attachments'' ''error'' s1)
      in s2\<lparr>loading := False\<rparr>)"

text \<open>\<open>tagF\<close> defaults to the slice \<open>tagFilter\<close>; every caller's value is passed here.\<close>

definition loadCandidates ::
  "string \<Rightarrow> string \<Rightarrow> candidate list response \<Rightarrow> recruit_state \<Rightarrow> recruit_state" where
  "loadCandidates search tagF r s =
     (let ps0 = (if search \<noteq> [] then params_set [] ''name'' (JStr search) else []);
          ps = (if tagF \<noteq> [] then params_set ps0 ''tag'' (JStr tagF) else ps0);
          s1 = send (Get ''/api/candidates'' ps) s
      in case r of
           Ok data \<Rightarrow>
             (let s2 = s1\<lparr>candidates := data\<rparr>
              in if search = [] \<and> tagF = [] then s2\<lparr>dbStats_candidates := length data\<rparr>
                 else s2)
         | _ \<Rightarrow> notify ''Failed to load candidates'' ''error'' s1)"

definition loadJobs :: "json list response \<Rightarrow> recruit_state \<Rightarrow> recruit_state" where
  "loadJobs r s =
     (let s1 = send (Get ''/api/jobs'' []) s
      in case r of
           Ok data \<Rightarrow> s1\<lparr>jobs := data\<rparr>
         | _ \<Rightarrow> notify ''Failed to load jobs'' ''error'' s1)"

text \<open>The body of \<open>GET /api/jobs/{id}/results\<close>: \<open>data.results\<close> may be absent.\<close>

record results_json =
  results :: "json list option"

definition loadMatchResults ::
  "string \<Rightarrow> results_json response \<Rightarrow> recruit_state \<Rightarrow> recruit_state" where
  "loadMatchResults jobId r s =
     (let s1 = send (Get (''/api/jobs/'' @ jobId @ ''/results'') []) s
      in case r of
           Ok data \<Rightarrow> s1\<lparr>matchResults := or_list (results data)\<rparr>
         | _ \<Rightarrow> s1\<lparr>matchResults := []\<rparr>)"

text \<open>\<open>storageLastUpdated\<close>, a wall-clock stamp set next to \<open>storageHealth\<close>, is left out.\<close>

definition loadStorageHealth :: "json response \<Rightarrow> recruit_state \<Rightarrow> recruit_state" where
  "loadStorageHealth r s =
     (let s1 = send (Get ''/api/storage/health'' []) s
      in case r of
           Ok data \<Rightarrow> s1\<lparr>storageHealth := Some data\<rparr>
         | _ \<Rightarrow> notify ''Failed to load storage health'' ''error'' s1)"

subsection \<open>The clear-all-data modal\<close>

text \<open>The settings button that opens the modal, and typing into its input.\<close>

definition open_clear_modal :: "recruit_state \<Rightarrow> recruit_state" where
  "open_clear_modal s = s\<lparr>showClearModal := True, clearConfirmText := ''''\<rparr>"

definition type_clear_confirm :: "string \<Rightarrow> recruit_state \<Rightarrow> recruit_state" where
  "type_clear_confirm txt s = s\<lparr>clearConfirmText := txt\<rparr>"

text \<open>The attribute \<open>disabled={clearConfirmText !== "CONFIRM"}\<close> of the delete button.\<close>

definition delete_disabled :: "recruit_state \<Rightarrow> bool" where
  "delete_disabled s = (clearConfirmText s \<noteq> ''CONFIRM'')"

text \<open>
  A click on "Delete Everything". The button is part of the modal, which is rendered
  only while \<open>showClearModal\<close> holds, and a disabled button dispatches no click; the
  handler itself has no guard. \<open>r\<close> is the outcome of the DELETE, \<open>rh\<close> that of the
  storage-health request sent after a success.
\<close>

definition click_delete_everything ::
  "unit response \<Rightarrow> json response \<Rightarrow> recruit_state \<Rightarrow> recruit_state" where
  "click_delete_everything r rh s =
     (if \<not> showClearModal s \<or> delete_disabled s then s
      else
        let s1 = send (Delete ''/api/storage/clear-data'' [(''confirm'', JStr ''CONFIRM'')]) s
        in case r of
             Ok _ \<Rightarrow>
               loadStorageHealth rh
                 ((notify ''All data cleared'' ''success'' s1)
                    \<lparr>showClearModal := False, candidates := [], jobs := [],
                     matchResults := []\<rparr>)
           | _ \<Rightarrow> notify ''Failed to clear data'' ''error'' s1)"

text \<open>The recruitment slices when the component mounts.\<close>

definition recruit_init :: recruit_state where
  "recruit_init =
     \<lparr>folders = [], stats = None, storedAttachments = [], loading = False, error = None,
      candidates = [], dbStats_candidates = 0, jobs = [], matchResults = [],
      storageHealth = None, view = ''inbox'', selectedCandidateId = None,
      candidateProfile = None, selectedCandidate = None, profileLoading = False,
      profileNotesSaved = False, candidateNotesDraft = Map.empty,
      candidateTagInput = Map.empty, clearConfirmText = '''', showClearModal = False,
      log = []\<rparr>"

lemma log_send [simp]: "log (send q s) = log s @ [Fetch q]"
  by (simp add: send_def)

lemma log_notify [simp]: "log (notify m t s) = log s @ [Notify m t]"
  by (simp add: notify_def)

lemma log_console_error [simp]: "log (console_error m s) = log s @ [ConsoleError m]"
  by (simp add: console_error_def)

lemma added_append [simp]: "added xs (xs @ ys) = ys"
  by (simp add: added_def)

lemma added_self [simp]: "added xs xs = []"
  by (simp add: added_def)

lemma added_Nil [simp]: "added [] xs = xs"
  by (simp add: added_def)

lemma log_loadStorageHealth:
  "log (loadStorageHealth r s) =
     log s @ Fetch (Get ''/api/storage/health'' []) #
       (if failed r then [Notify ''Failed to load storage health'' ''error''] else [])"
  by (cases r) (simp_all add: loadStorageHealth_def)

text \<open>
  C8. A click on the delete button sends the clear-data request only when the
  confirmation input holds exactly \<open>CONFIRM\<close>: for any other text (for instance the
  lowercase \<open>confirm\<close>) the button is disabled, the click changes nothing and no request
  is sent; with \<open>CONFIRM\<close> typed into the open modal, the DELETE is the one mutating
  request that is sent. The guard is evaluated by the client before any request.
\<close>

theorem C8_clear_data_requires_CONFIRM:
  "(clearConfirmText s \<noteq> ''CONFIRM'' \<longrightarrow>
      delete_disabled s \<and> click_delete_everything r rh s = s) \<and>
   (showClearModal s \<and> clearConfirmText s = ''CONFIRM'' \<longrightarrow>
      \<not> delete_disabled s \<and>
      mutations (added (log s) (log (click_delete_everything r rh s))) =
        [Delete ''/api/storage/clear-data'' [(''confirm'', JStr ''CONFIRM'')]])"
  by (cases r)
     (simp_all add: click_delete_everything_def delete_disabled_def Let_def
        log_loadStorageHealth mutations_append)

theorem C8_clear_data_witness:
  "clearConfirmText (type_clear_confirm ''confirm'' (open_clear_modal recruit_init)) \<noteq> ''CONFIRM'' \<and>
   delete_disabled (type_clear_confirm ''confirm'' (open_clear_modal recruit_init)) \<and>
   click_delete_everything (Ok ()) (Ok (Json ''{}''))
       (type_clear_confirm ''confirm'' (open_clear_modal recruit_init))
     = type_clear_confirm ''confirm'' (open_clear_modal recruit_init) \<and>
   showClearModal (type_clear_confirm ''CONFIRM'' (open_clear_modal recruit_init)) \<and>
   clearConfirmText (type_clear_confirm ''CONFIRM'' (open_clear_modal recruit_init)) = ''CONFIRM'' \<and>
   mutations (added (log (type_clear_confirm ''CONFIRM'' (open_clear_modal recruit_init)))
       (log (click_delete_everything (Ok ()) (Ok (Json ''{}''))
              (type_clear_confirm ''CONFIRM'' (open_clear_modal recruit_init))))) =
     [Delete ''/api/storage/clear-data'' [(''confirm'', JStr ''CONFIRM'')]]"
  using C8_clear_data_requires_CONFIRM
          [of "type_clear_confirm ''confirm'' (open_clear_modal recruit_init)"
              "Ok ()" "Ok (Json ''{}'')"]
        C8_clear_data_requires_CONFIRM
          [of "type_clear_confirm ''CONFIRM'' (open_clear_modal recruit_init)"
              "Ok ()" "Ok (Json ''{}'')"]
  by (simp add: type_clear_confirm_def open_clear_modal_def recruit_init_def)


section \<open>Candidate notes and tags\<close>

text \<open>
  \<open>String.prototype.toLowerCase\<close> and \<open>String.prototype.trim\<close> are functions of the
  platform, not of this repository: every handler that calls one takes it as a
  parameter, \<open>lc\<close> for \<open>toLowerCase\<close> and \<open>tr\<close> for \<open>trim\<close>, and what is proved holds
  for every such function.
\<close>

text \<open>\<open>current.some((t) => t.toLowerCase() === tag.toLowerCase())\<close>\<close>

definition some_ci :: "(string \<Rightarrow> string) \<Rightarrow> string list \<Rightarrow> string \<Rightarrow> bool" where
  "some_ci lc current tag = list_ex (\<lambda>t. lc t = lc tag) current"

definition SUGGESTED_TAGS :: "string list" where
  "SUGGESTED_TAGS =
     [''Shortlisted'', ''Rejected'', ''On Hold'', ''Interview Scheduled'', ''Offer Sent'']"

subsection \<open>Persisting\<close>

definition saveCandidateNotes ::
  "string \<Rightarrow> string \<Rightarrow> unit response \<Rightarrow> recruit_state \<Rightarrow> recruit_state" where
  "saveCandidateNotes cid notes r s =
     (let s1 = send (Patch (''/api/candidates/'' @ cid @ ''/notes'') [(''notes'', JStr notes)]) s
      in case r of
           Ok _ \<Rightarrow>
             s1\<lparr>candidates :=
                  map (\<lambda>c. if cand_id c = cid then c\<lparr>cand_notes := Some notes\<rparr> else c)
                    (candidates s1)\<rparr>
         | _ \<Rightarrow> notify ''Failed to save notes'' ''error'' s1)"

definition saveCandidateTags ::
  "string \<Rightarrow> string list \<Rightarrow> unit response \<Rightarrow> recruit_state \<Rightarrow> recruit_state" where
  "saveCandidateTags cid tags r s =
     (let s1 = send (Patch (''/api/candidates/'' @ cid @ ''/tags'') [(''tags'', JList tags)]) s
      in case r of
           Ok _ \<Rightarrow>
             s1\<lparr>candidates :=
                  map (\<lambda>c. if cand_id c = cid then c\<lparr>cand_tags := Some tags\<rparr> else c)
                    (candidates s1)\<rparr>
         | _ \<Rightarrow> notify ''Failed to save tags'' ''error'' s1)"

definition addTagToCandidate ::
  "(string \<Rightarrow> string) \<Rightarrow> string \<Rightarrow> string \<Rightarrow> unit response \<Rightarrow> recruit_state \<Rightarrow>
   recruit_state" where
  "addTagToCandidate lc cid tag r s =
     (case find (\<lambda>x. cand_id x = cid) (candidates s) of
        None \<Rightarrow> s
      | Some c \<Rightarrow>
          (let current = or_list (cand_tags c)
           in if some_ci lc current tag then s
              else saveCandidateTags cid (current @ [tag]) r s))"

definition removeTagFromCandidate ::
  "string \<Rightarrow> string \<Rightarrow> unit response \<Rightarrow> recruit_state \<Rightarrow> recruit_state" where
  "removeTagFromCandidate cid tag r s =
     (case find (\<lambda>x. cand_id x = cid) (candidates s) of
        None \<Rightarrow> s
      | Some c \<Rightarrow> saveCandidateTags cid (filter (\<lambda>t. t \<noteq> tag) (or_list (cand_tags c))) r s)"

subsection \<open>The expanded row of the candidates table\<close>

text \<open>
  The handlers of a row close over \<open>c\<close>, the element of \<open>candidates\<close> the row renders.
  The value its notes textarea shows:
  \<open>candidateNotesDraft[c.id] !== undefined ? candidateNotesDraft[c.id] : (c.notes || "")\<close>.
\<close>

definition notes_textarea_value :: "candidate \<Rightarrow> recruit_state \<Rightarrow> string" where
  "notes_textarea_value c s =
     (case candidateNotesDraft s (cand_id c) of
        Some d \<Rightarrow> d
      | None \<Rightarrow> or_str (cand_notes c) '''')"

definition notes_onChange :: "candidate \<Rightarrow> string \<Rightarrow> recruit_state \<Rightarrow> recruit_state" where
  "notes_onChange c v s = s\<lparr>candidateNotesDraft := (candidateNotesDraft s)(cand_id c \<mapsto> v)\<rparr>"

definition row_notes_onBlur ::
  "candidate \<Rightarrow> unit response \<Rightarrow> recruit_state \<Rightarrow> recruit_state" where
  "row_notes_onBlur c r s =
     (let s1 = (case candidateNotesDraft s (cand_id c) of
                  None \<Rightarrow> s
                | Some draft \<Rightarrow>
                    if draft \<noteq> or_str (cand_notes c) ''''
                    then saveCandidateNotes (cand_id c) draft r s else s)
      in s1\<lparr>candidateNotesDraft := (candidateNotesDraft s1)(cand_id c := None)\<rparr>)"

text \<open>The suggested-tag buttons a view renders for \<open>c\<close>.\<close>

definition suggested_buttons :: "(string \<Rightarrow> string) \<Rightarrow> candidate \<Rightarrow> string list" where
  "suggested_buttons lc c =
     filter (\<lambda>st. \<not> some_ci lc (or_list (cand_tags c)) st) SUGGESTED_TAGS"

definition row_suggested_onClick ::
  "(string \<Rightarrow> string) \<Rightarrow> candidate \<Rightarrow> string \<Rightarrow> unit response \<Rightarrow> recruit_state \<Rightarrow>
   recruit_state" where
  "row_suggested_onClick lc c st r s =
     (if st \<in> set (suggested_buttons lc c) then addTagToCandidate lc (cand_id c) st r s
      else s)"

definition tag_input :: "candidate \<Rightarrow> recruit_state \<Rightarrow> string" where
  "tag_input c s = (case candidateTagInput s (cand_id c) of None \<Rightarrow> [] | Some x \<Rightarrow> x)"

definition row_tag_onEnter ::
  "(string \<Rightarrow> string) \<Rightarrow> (string \<Rightarrow> string) \<Rightarrow> candidate \<Rightarrow> unit response \<Rightarrow>
   recruit_state \<Rightarrow> recruit_state" where
  "row_tag_onEnter lc tr c r s =
     (if tr (tag_input c s) \<noteq> []
      then (addTagToCandidate lc (cand_id c) (tr (tag_input c s)) r s)
             \<lparr>candidateTagInput := (candidateTagInput s)(cand_id c \<mapsto> '''')\<rparr>
      else s)"

subsection \<open>The candidate profile view\<close>

text \<open>
  \<open>const c = p || preview\<close>, where \<open>p\<close> is \<open>candidateProfile\<close> and \<open>preview\<close> the entry
  of the list with the selected id, or the empty object \<open>{}\<close>. The empty object has no
  id; it is written here with an empty id.
\<close>

definition empty_candidate :: candidate where
  "empty_candidate = \<lparr>cand_id = [], cand_name = [], cand_notes = None, cand_tags = None\<rparr>"

definition profile_c :: "recruit_state \<Rightarrow> candidate" where
  "profile_c s =
     (case candidateProfile s of
        Some p \<Rightarrow> p
      | None \<Rightarrow>
          (case find (\<lambda>x. Some (cand_id x) = selectedCandidateId s) (candidates s) of
             Some x \<Rightarrow> x
           | None \<Rightarrow> empty_candidate))"

text \<open>
  The view is rendered when \<open>view === "candidateProfile" && selectedCandidateId\<close>.
  \<open>openCandidateProfile\<close> also resets the active tab and the expanded match, and the
  sidebar entry also clears the selected email; those slices are left out.
\<close>

definition profile_shown :: "recruit_state \<Rightarrow> bool" where
  "profile_shown s =
     (view s = ''candidateProfile'' \<and>
      (case selectedCandidateId s of None \<Rightarrow> False | Some i \<Rightarrow> i \<noteq> []))"

definition openCandidateProfile ::
  "string \<Rightarrow> candidate response \<Rightarrow> recruit_state \<Rightarrow> recruit_state" where
  "openCandidateProfile cid r s =
     (let s1 = send (Get (''/api/candidates/'' @ cid) [])
                 (s\<lparr>selectedCandidateId := Some cid, candidateProfile := None,
                    profileLoading := True, view := ''candidateProfile''\<rparr>);
          s2 = (case r of
                  Ok data \<Rightarrow> s1\<lparr>candidateProfile := Some data, selectedCandidate := Some data\<rparr>
                | _ \<Rightarrow>
                    notify (''Failed to load candidate profile: '' @ error_message r) ''error'' s1)
      in s2\<lparr>profileLoading := False\<rparr>)"

text \<open>The sidebar entry "Candidates" and the profile's "Back" button.\<close>

definition sidebar_candidates ::
  "string \<Rightarrow> string \<Rightarrow> candidate list response \<Rightarrow> recruit_state \<Rightarrow> recruit_state" where
  "sidebar_candidates search tagF r s =
     loadCandidates search tagF r
       (s\<lparr>view := ''candidates'', selectedCandidateId := None, candidateProfile := None\<rparr>)"

definition profile_back :: "recruit_state \<Rightarrow> recruit_state" where
  "profile_back s =
     s\<lparr>view := ''candidates'', selectedCandidateId := None, candidateProfile := None,
       selectedCandidate := None\<rparr>"

definition profile_remove_onClick ::
  "string \<Rightarrow> unit response \<Rightarrow> recruit_state \<Rightarrow> recruit_state" where
  "profile_remove_onClick t r s =
     (let c = profile_c s;
          s1 = removeTagFromCandidate (cand_id c) t r s;
          drop_tag = (\<lambda>p. p\<lparr>cand_tags := Some (filter (\<lambda>x. x \<noteq> t) (or_list (cand_tags p)))\<rparr>)
      in s1\<lparr>candidateProfile := map_option drop_tag (candidateProfile s1),
            selectedCandidate := map_option drop_tag (selectedCandidate s1)\<rparr>)"

definition profile_suggested_onClick ::
  "(string \<Rightarrow> string) \<Rightarrow> string \<Rightarrow> unit response \<Rightarrow> recruit_state \<Rightarrow> recruit_state" where
  "profile_suggested_onClick lc st r s =
     (let c = profile_c s
      in if profile_shown s \<and> st \<in> set (suggested_buttons lc c) then
           (let s1 = addTagToCandidate lc (cand_id c) st r s;
                push_tag = (\<lambda>p. p\<lparr>cand_tags := Some (or_list (cand_tags p) @ [st])\<rparr>)
            in s1\<lparr>candidateProfile := map_option push_tag (candidateProfile s1),
                  selectedCandidate := map_option push_tag (selectedCandidate s1)\<rparr>)
         else s)"

definition profile_tag_onEnter ::
  "(string \<Rightarrow> string) \<Rightarrow> (string \<Rightarrow> string) \<Rightarrow> unit response \<Rightarrow> recruit_state \<Rightarrow>
   recruit_state" where
  "profile_tag_onEnter lc tr r s =
     (let c = profile_c s
      in if tr (tag_input c s) \<noteq> [] then
           (let newTag = tr (tag_input c s);
                s1 = addTagToCandidate lc (cand_id c) newTag r s;
                push_new = (\<lambda>p. if some_ci lc (or_list (cand_tags p)) newTag then p
                                 else p\<lparr>cand_tags := Some (or_list (cand_tags p) @ [newTag])\<rparr>)
            in s1\<lparr>candidateProfile := map_option push_new (candidateProfile s1),
                  selectedCandidate := map_option push_new (selectedCandidate s1),
                  candidateTagInput := (candidateTagInput s1)(cand_id c \<mapsto> '''')\<rparr>)
         else s)"

text \<open>
  The profile's notes textarea. \<open>profileNotesSaved\<close> is set here and cleared by a timer
  two seconds later; the timer is left out.
\<close>

definition profile_notes_onBlur :: "unit response \<Rightarrow> recruit_state \<Rightarrow> recruit_state" where
  "profile_notes_onBlur r s =
     (let c = profile_c s;
          s1 = (case candidateNotesDraft s (cand_id c) of
                  None \<Rightarrow> s
                | Some draft \<Rightarrow>
                    if draft \<noteq> or_str (cand_notes c) '''' then
                      (let s2 = saveCandidateNotes (cand_id c) draft r s;
                           put = (\<lambda>p. p\<lparr>cand_notes := Some draft\<rparr>)
                       in s2\<lparr>candidateProfile := map_option put (candidateProfile s2),
                             selectedCandidate := map_option put (selectedCandidate s2),
                             profileNotesSaved := True\<rparr>)
                    else s)
      in s1\<lparr>candidateNotesDraft := (candidateNotesDraft s1)(cand_id c := None)\<rparr>)"


subsection \<open>Notes: what a blur persists, and what stays on the screen\<close>

lemma saveCandidateNotes_log:
  "log (saveCandidateNotes cid d r s) =
     log s @ Fetch (Patch (''/api/candidates/'' @ cid @ ''/notes'') [(''notes'', JStr d)]) #
       (if failed r then [Notify ''Failed to save notes'' ''error''] else [])"
  by (cases r) (simp_all add: saveCandidateNotes_def Let_def)

lemma saveCandidateNotes_failed:
  "failed r \<Longrightarrow> candidates (saveCandidateNotes cid d r s) = candidates s"
  by (cases r) (simp_all add: saveCandidateNotes_def send_def notify_def Let_def)

lemma saveCandidateNotes_other_slices:
  "candidateNotesDraft (saveCandidateNotes cid d r s) = candidateNotesDraft s"
  "candidateProfile (saveCandidateNotes cid d r s) = candidateProfile s"
  "selectedCandidate (saveCandidateNotes cid d r s) = selectedCandidate s"
  "selectedCandidateId (saveCandidateNotes cid d r s) = selectedCandidateId s"
  by (cases r; simp add: saveCandidateNotes_def send_def notify_def Let_def)+

text \<open>The request a blur sends for the record \<open>c\<close> shown, if any.\<close>

definition blur_requests :: "candidate \<Rightarrow> recruit_state \<Rightarrow> request list" where
  "blur_requests c s =
     (case candidateNotesDraft s (cand_id c) of
        None \<Rightarrow> []
      | Some d \<Rightarrow>
          if d \<noteq> or_str (cand_notes c) ''''
          then [Patch (''/api/candidates/'' @ cand_id c @ ''/notes'') [(''notes'', JStr d)]]
          else [])"

lemma row_notes_onBlur_fetches:
  "fetches_of (added (log s) (log (row_notes_onBlur c r s))) = blur_requests c s"
  by (simp add: row_notes_onBlur_def blur_requests_def saveCandidateNotes_log Let_def
        split: option.split)

lemma row_notes_onBlur_notices:
  "filter is_notify (added (log s) (log (row_notes_onBlur c r s))) =
     (if failed r \<and> blur_requests c s \<noteq> [] then [Notify ''Failed to save notes'' ''error'']
      else [])"
  by (simp add: row_notes_onBlur_def blur_requests_def saveCandidateNotes_log Let_def
        split: option.split)

lemma row_notes_onBlur_failed:
  "failed r \<Longrightarrow> candidates (row_notes_onBlur c r s) = candidates s"
  by (simp add: row_notes_onBlur_def saveCandidateNotes_failed Let_def split: option.split)

lemma row_notes_onBlur_draft:
  "candidateNotesDraft (row_notes_onBlur c r s) (cand_id c) = None"
  by (simp add: row_notes_onBlur_def Let_def)

lemma profile_notes_onBlur_fetches:
  "fetches_of (added (log s) (log (profile_notes_onBlur r s))) = blur_requests (profile_c s) s"
  by (simp add: profile_notes_onBlur_def blur_requests_def saveCandidateNotes_log Let_def
        split: option.split)

lemma profile_notes_onBlur_failed:
  "failed r \<Longrightarrow> candidates (profile_notes_onBlur r s) = candidates s"
  by (simp add: profile_notes_onBlur_def saveCandidateNotes_failed Let_def split: option.split)

lemma profile_notes_onBlur_draft:
  "candidateNotesDraft (profile_notes_onBlur r s) (cand_id (profile_c s)) = None"
  by (simp add: profile_notes_onBlur_def Let_def)

lemma profile_notes_onBlur_keeps_text:
  assumes "candidateProfile s = Some p" and "candidateNotesDraft s (cand_id p) = Some d"
    and "d \<noteq> or_str (cand_notes p) ''''"
  shows "notes_textarea_value (profile_c (profile_notes_onBlur r s)) (profile_notes_onBlur r s) = d"
  using assms
  by (simp add: profile_notes_onBlur_def profile_c_def Let_def notes_textarea_value_def
        saveCandidateNotes_other_slices)

lemma profile_notes_onBlur_notices:
  "filter is_notify (added (log s) (log (profile_notes_onBlur r s))) =
     (if failed r \<and> blur_requests (profile_c s) s \<noteq> []
      then [Notify ''Failed to save notes'' ''error''] else [])"
  by (simp add: profile_notes_onBlur_def blur_requests_def saveCandidateNotes_log Let_def
        split: option.split)

lemma profile_notes_onBlur_unloaded:
  assumes "candidateProfile s = None" and "failed r"
  shows "profile_c (profile_notes_onBlur r s) = profile_c s"
    and "notes_textarea_value (profile_c (profile_notes_onBlur r s)) (profile_notes_onBlur r s) =
           or_str (cand_notes (profile_c s)) ''''"
proof -
  have slices: "candidateProfile (profile_notes_onBlur r s) = None"
    "selectedCandidateId (profile_notes_onBlur r s) = selectedCandidateId s"
    using assms(1)
    by (simp_all add: profile_notes_onBlur_def Let_def saveCandidateNotes_other_slices
          split: option.split)
  show c: "profile_c (profile_notes_onBlur r s) = profile_c s"
    using assms by (simp add: profile_c_def slices profile_notes_onBlur_failed)
  show "notes_textarea_value (profile_c (profile_notes_onBlur r s)) (profile_notes_onBlur r s) =
      or_str (cand_notes (profile_c s)) ''''"
    by (simp add: c notes_textarea_value_def profile_notes_onBlur_draft)
qed

text \<open>A candidate with saved notes, listed, whose notes the user has retyped.\<close>

definition cand_ada :: candidate where
  "cand_ada = \<lparr>cand_id = ''7'', cand_name = ''Ada'', cand_notes = Some ''old'', cand_tags = None\<rparr>"

definition retyped :: recruit_state where
  "retyped =
     notes_onChange cand_ada ''new text''
       (loadCandidates [] [] (Ok [cand_ada]) recruit_init)"

text \<open>
  C4, as stated, fails in the candidates table: the row shows the typed text, the blur
  sends it, the request fails, and the row then shows the old notes again, since the
  blur has discarded the draft.
\<close>

theorem C4_row_blur_loses_typed_text:
  "notes_textarea_value cand_ada retyped = ''new text'' \<and>
   candidates (row_notes_onBlur cand_ada (HttpError ''500'') retyped) = [cand_ada] \<and>
   candidateNotesDraft (row_notes_onBlur cand_ada (HttpError ''500'') retyped) ''7'' = None \<and>
   notes_textarea_value cand_ada (row_notes_onBlur cand_ada (HttpError ''500'') retyped) = ''old''"
  by (simp add: retyped_def cand_ada_def notes_onChange_def loadCandidates_def recruit_init_def
        row_notes_onBlur_def saveCandidateNotes_def send_def notify_def
        notes_textarea_value_def Let_def)

text \<open>
  C4, amended. On loss of focus a persistence request is sent exactly when a draft
  exists and differs from the notes of the record shown (\<open>c.notes || ""\<close>). Every blur
  discards the draft. If the request fails, the list of candidates is unchanged and
  the user is notified once, in the table and in the profile view alike. The notes
  textarea of the table row then shows the record's notes as they were; so does the
  profile view while the profile is not loaded (\<open>candidateProfile\<close> is null and the
  record shown is the list entry). Only when the profile is loaded does the profile
  view still show the typed text, because its handler has written the draft into the
  profile slice without waiting for the outcome.
\<close>

theorem C4_notes_blur:
  "fetches_of (added (log s) (log (row_notes_onBlur c r s))) = blur_requests c s \<and>
   candidateNotesDraft (row_notes_onBlur c r s) (cand_id c) = None \<and>
   (failed r \<longrightarrow>
      candidates (row_notes_onBlur c r s) = candidates s \<and>
      filter is_notify (added (log s) (log (row_notes_onBlur c r s))) =
        (if blur_requests c s \<noteq> [] then [Notify ''Failed to save notes'' ''error''] else []) \<and>
      notes_textarea_value c (row_notes_onBlur c r s) = or_str (cand_notes c) '''') \<and>
   fetches_of (added (log s) (log (profile_notes_onBlur r s))) = blur_requests (profile_c s) s \<and>
   candidateNotesDraft (profile_notes_onBlur r s) (cand_id (profile_c s)) = None \<and>
   (failed r \<longrightarrow>
      candidates (profile_notes_onBlur r s) = candidates s \<and>
      filter is_notify (added (log s) (log (profile_notes_onBlur r s))) =
        (if blur_requests (profile_c s) s \<noteq> []
         then [Notify ''Failed to save notes'' ''error''] else [])) \<and>
   (failed r \<and> candidateProfile s = None \<longrightarrow>
      notes_textarea_value (profile_c (profile_notes_onBlur r s)) (profile_notes_onBlur r s) =
        or_str (cand_notes (profile_c s)) '''') \<and>
   (candidateProfile s = Some p \<and> candidateNotesDraft s (cand_id p) = Some d \<and>
    d \<noteq> or_str (cand_notes p) '''' \<longrightarrow>
      notes_textarea_value (profile_c (profile_notes_onBlur r s)) (profile_notes_onBlur r s) = d)"
proof -
  have "notes_textarea_value c (row_notes_onBlur c r s) = or_str (cand_notes c) ''''"
    by (simp add: notes_textarea_value_def row_notes_onBlur_draft)
  moreover have "candidateProfile s = Some p \<and> candidateNotesDraft s (cand_id p) = Some d \<and>
      d \<noteq> or_str (cand_notes p) '''' \<longrightarrow>
      notes_textarea_value (profile_c (profile_notes_onBlur r s)) (profile_notes_onBlur r s) = d"
    using profile_notes_onBlur_keeps_text [of s p d r] by auto
  moreover have "failed r \<and> candidateProfile s = None \<longrightarrow>
      notes_textarea_value (profile_c (profile_notes_onBlur r s)) (profile_notes_onBlur r s) =
        or_str (cand_notes (profile_c s)) ''''"
    using profile_notes_onBlur_unloaded(2) [of s r] by auto
  ultimately show ?thesis
    using row_notes_onBlur_fetches [of s c r] row_notes_onBlur_notices [of s c r]
      row_notes_onBlur_failed [of r c s] row_notes_onBlur_draft [of c r s]
      profile_notes_onBlur_fetches [of s r] profile_notes_onBlur_failed [of r s]
      profile_notes_onBlur_draft [of r s] profile_notes_onBlur_notices [of s r]
    by simp
qed

text \<open>
  The profile of the same candidate with the same retyped notes: once loaded, and once
  opened by a request that failed, so that the view shows the list entry.
\<close>

definition retyped_profile :: recruit_state where
  "retyped_profile =
     notes_onChange cand_ada ''new text''
       (openCandidateProfile ''7'' (Ok cand_ada)
          (loadCandidates [] [] (Ok [cand_ada]) recruit_init))"

definition retyped_unloaded :: recruit_state where
  "retyped_unloaded =
     notes_onChange cand_ada ''new text''
       (openCandidateProfile ''7'' (HttpError ''500'')
          (loadCandidates [] [] (Ok [cand_ada]) recruit_init))"

theorem C4_notes_blur_witness:
  "failed (HttpError ''500'' :: unit response) \<and>
   fetches_of (added (log retyped_profile)
       (log (row_notes_onBlur cand_ada (HttpError ''500'') retyped_profile))) =
     [Patch ''/api/candidates/7/notes'' [(''notes'', JStr ''new text'')]] \<and>
   candidates (row_notes_onBlur cand_ada (HttpError ''500'') retyped_profile) = [cand_ada] \<and>
   filter is_notify (added (log retyped_profile)
       (log (row_notes_onBlur cand_ada (HttpError ''500'') retyped_profile))) =
     [Notify ''Failed to save notes'' ''error''] \<and>
   notes_textarea_value cand_ada (row_notes_onBlur cand_ada (HttpError ''500'') retyped_profile)
     = ''old'' \<and>
   candidateProfile retyped_profile = Some cand_ada \<and>
   candidateNotesDraft retyped_profile (cand_id cand_ada) = Some ''new text'' \<and>
   candidates (profile_notes_onBlur (HttpError ''500'') retyped_profile) = [cand_ada] \<and>
   filter is_notify (added (log retyped_profile)
       (log (profile_notes_onBlur (HttpError ''500'') retyped_profile))) =
     [Notify ''Failed to save notes'' ''error''] \<and>
   notes_textarea_value (profile_c (profile_notes_onBlur (HttpError ''500'') retyped_profile))
       (profile_notes_onBlur (HttpError ''500'') retyped_profile) = ''new text'' \<and>
   candidateProfile retyped_unloaded = None \<and>
   profile_shown retyped_unloaded \<and>
   notes_textarea_value (profile_c retyped_unloaded) retyped_unloaded = ''new text'' \<and>
   notes_textarea_value (profile_c (profile_notes_onBlur (HttpError ''500'') retyped_unloaded))
       (profile_notes_onBlur (HttpError ''500'') retyped_unloaded) = ''old''"
proof -
  have st: "candidates retyped_profile = [cand_ada]"
    "candidateProfile retyped_profile = Some cand_ada"
    "candidateNotesDraft retyped_profile (cand_id cand_ada) = Some ''new text''"
    by (simp_all add: retyped_profile_def notes_onChange_def openCandidateProfile_def
          loadCandidates_def recruit_init_def send_def Let_def cand_ada_def)
  have su: "candidates retyped_unloaded = [cand_ada]"
    "candidateProfile retyped_unloaded = None"
    "selectedCandidateId retyped_unloaded = Some ''7''"
    "view retyped_unloaded = ''candidateProfile''"
    "candidateNotesDraft retyped_unloaded ''7'' = Some ''new text''"
    by (simp_all add: retyped_unloaded_def notes_onChange_def openCandidateProfile_def
          loadCandidates_def recruit_init_def send_def notify_def Let_def cand_ada_def)
  have cu: "profile_c retyped_unloaded = cand_ada"
    by (simp add: profile_c_def su) (simp add: cand_ada_def)
  have pc: "profile_c retyped_profile = cand_ada"
    by (simp add: profile_c_def st)
  have shown: "profile_shown retyped_unloaded"
    by (simp add: profile_shown_def su)
  have before: "notes_textarea_value (profile_c retyped_unloaded) retyped_unloaded = ''new text''"
    by (simp add: cu notes_textarea_value_def) (simp add: cand_ada_def su)
  have br: "blur_requests cand_ada retyped_profile =
      [Patch ''/api/candidates/7/notes'' [(''notes'', JStr ''new text'')]]"
    using st(3) by (simp add: blur_requests_def) (simp add: cand_ada_def)
  have nn: "or_str (cand_notes cand_ada) '''' = ''old''" "''new text'' \<noteq> ''old''"
    by (simp_all add: cand_ada_def)
  show ?thesis
    using C4_notes_blur [of retyped_profile cand_ada "HttpError ''500''" cand_ada "''new text''"]
      C4_notes_blur [of retyped_unloaded cand_ada "HttpError ''500''" cand_ada "''new text''"]
      st su cu pc shown before br nn
    by simp
qed


subsection \<open>Tags: duplicates under case-insensitive comparison\<close>

text \<open>A tag list has no two entries equal up to case, as \<open>lc\<close> folds it.\<close>

definition tags_ci_distinct :: "(string \<Rightarrow> string) \<Rightarrow> candidate \<Rightarrow> bool" where
  "tags_ci_distinct lc c = distinct (map lc (or_list (cand_tags c)))"

text \<open>The invariant over the three slices a tag mutation fans out to.\<close>

definition tags_invariant :: "(string \<Rightarrow> string) \<Rightarrow> recruit_state \<Rightarrow> bool" where
  "tags_invariant lc s =
     (list_all (tags_ci_distinct lc) (candidates s) \<and>
      (case candidateProfile s of None \<Rightarrow> True | Some p \<Rightarrow> tags_ci_distinct lc p) \<and>
      (case selectedCandidate s of None \<Rightarrow> True | Some p \<Rightarrow> tags_ci_distinct lc p))"

lemma some_ci_iff: "some_ci lc current tag \<longleftrightarrow> lc tag \<in> set (map lc current)"
  by (auto simp: some_ci_def list_ex_iff) (metis imageI)

lemma addTagToCandidate_duplicate_noop:
  "find (\<lambda>x. cand_id x = cid) (candidates s) = Some c \<Longrightarrow>
   some_ci lc (or_list (cand_tags c)) tag \<Longrightarrow> addTagToCandidate lc cid tag r s = s"
  by (simp add: addTagToCandidate_def)

lemma saveCandidateTags_candidates:
  "candidates (saveCandidateTags cid ts r s) =
     (if failed r then candidates s
      else map (\<lambda>c. if cand_id c = cid then c\<lparr>cand_tags := Some ts\<rparr> else c) (candidates s))"
  by (cases r) (simp_all add: saveCandidateTags_def send_def notify_def Let_def)

lemma saveCandidateTags_other_slices:
  "candidateProfile (saveCandidateTags cid ts r s) = candidateProfile s"
  "selectedCandidate (saveCandidateTags cid ts r s) = selectedCandidate s"
  by (cases r; simp add: saveCandidateTags_def send_def notify_def Let_def)+

lemma addTagToCandidate_other_slices:
  "candidateProfile (addTagToCandidate lc cid tag r s) = candidateProfile s"
  "selectedCandidate (addTagToCandidate lc cid tag r s) = selectedCandidate s"
  by (simp_all add: addTagToCandidate_def Let_def saveCandidateTags_other_slices
        split: option.split)

lemma addTagToCandidate_list_invariant:
  assumes "list_all (tags_ci_distinct lc) (candidates s)"
  shows "list_all (tags_ci_distinct lc) (candidates (addTagToCandidate lc cid tag r s))"
proof (cases "find (\<lambda>x. cand_id x = cid) (candidates s)")
  case None
  then show ?thesis using assms by (simp add: addTagToCandidate_def)
next
  case (Some c)
  then have cin: "c \<in> set (candidates s)"
    by (auto simp: find_Some_iff)
  show ?thesis
  proof (cases "some_ci lc (or_list (cand_tags c)) tag")
    case True
    then show ?thesis using Some assms by (simp add: addTagToCandidate_def)
  next
    case False
    from cin assms have "tags_ci_distinct lc c" by (simp add: list_all_iff)
    with False have "distinct (map lc (or_list (cand_tags c) @ [tag]))"
      by (simp add: tags_ci_distinct_def some_ci_iff)
    then show ?thesis
      using Some False assms
      by (auto simp: addTagToCandidate_def Let_def saveCandidateTags_candidates list_all_iff
            tags_ci_distinct_def)
  qed
qed

text \<open>
  Two listed candidates; the second is already shortlisted. The user opens the profile
  of the second, leaves it through the sidebar (which clears \<open>candidateProfile\<close> but not
  \<open>selectedCandidate\<close>), then opens the profile of the first, and that request fails.
\<close>

definition cand_first :: candidate where
  "cand_first = \<lparr>cand_id = ''1'', cand_name = ''Ann'', cand_notes = None, cand_tags = Some []\<rparr>"

definition cand_second :: candidate where
  "cand_second =
     \<lparr>cand_id = ''2'', cand_name = ''Bob'', cand_notes = None, cand_tags = Some [''Shortlisted'']\<rparr>"

definition stale_profile :: recruit_state where
  "stale_profile =
     openCandidateProfile ''1'' (HttpError ''500'')
       (sidebar_candidates [] [] (Ok [cand_first, cand_second])
          (openCandidateProfile ''2'' (Ok cand_second)
             (loadCandidates [] [] (Ok [cand_first, cand_second]) recruit_init)))"

lemma stale_profile_slices:
  "candidates stale_profile = [cand_first, cand_second]"
  "candidateProfile stale_profile = None"
  "selectedCandidate stale_profile = Some cand_second"
  "selectedCandidateId stale_profile = Some ''1''"
  "view stale_profile = ''candidateProfile''"
  by (simp_all add: stale_profile_def openCandidateProfile_def sidebar_candidates_def
        loadCandidates_def recruit_init_def send_def notify_def Let_def)

text \<open>
  C6 on the code. In that state every tag list is free of duplicates and the profile
  view offers the button "Shortlisted" for the first candidate; the click appends the
  tag to \<open>selectedCandidate\<close> without the comparison that the custom-tag input makes,
  and the second candidate's record there holds the tag twice. This is so whatever
  function folds the case.
\<close>

theorem C6_suggested_tag_duplicates:
  "tags_invariant lc stale_profile \<and>
   profile_shown stale_profile \<and>
   ''Shortlisted'' \<in> set (suggested_buttons lc (profile_c stale_profile)) \<and>
   selectedCandidate (profile_suggested_onClick lc ''Shortlisted'' (Ok ()) stale_profile) =
     Some (cand_second\<lparr>cand_tags := Some [''Shortlisted'', ''Shortlisted'']\<rparr>) \<and>
   \<not> tags_invariant lc (profile_suggested_onClick lc ''Shortlisted'' (Ok ()) stale_profile)"
proof -
  have inv: "tags_invariant lc stale_profile"
    by (simp add: tags_invariant_def stale_profile_slices tags_ci_distinct_def
          cand_first_def cand_second_def)
  have shown: "profile_shown stale_profile"
    by (simp add: profile_shown_def stale_profile_slices)
  have c: "profile_c stale_profile = cand_first"
    by (simp add: profile_c_def stale_profile_slices) (simp add: cand_first_def)
  have btn: "''Shortlisted'' \<in> set (suggested_buttons lc cand_first)"
    by (simp add: suggested_buttons_def SUGGESTED_TAGS_def some_ci_def cand_first_def)
  have sel: "selectedCandidate (profile_suggested_onClick lc ''Shortlisted'' (Ok ()) stale_profile) =
     Some (cand_second\<lparr>cand_tags := Some [''Shortlisted'', ''Shortlisted'']\<rparr>)"
    using shown btn c
    by (simp add: profile_suggested_onClick_def Let_def stale_profile_slices
          addTagToCandidate_other_slices)
       (simp add: cand_second_def)
  have "\<not> tags_invariant lc (profile_suggested_onClick lc ''Shortlisted'' (Ok ()) stale_profile)"
    by (simp add: tags_invariant_def sel tags_ci_distinct_def)
  with inv shown btn c sel show ?thesis by simp
qed


section \<open>The email listing\<close>

record email =
  email_id :: string
  email_subject :: string

text \<open>The body of \<open>GET /api/emails\<close>; \<open>data.emails\<close> and \<open>data.total\<close> may be absent.\<close>

record emails_json =
  ej_emails :: "email list option"
  ej_total :: "int option"

record pagination =
  skip :: int
  top :: int
  total :: int

text \<open>\<open>inboxFilters\<close>; an unset filter is the empty string.\<close>

record filters =
  from_date :: string
  to_date :: string
  sender :: string

record inbox_state =
  emails :: "email list"
  pagination :: pagination
  emailsFromCache :: bool
  activeFolder :: "string option"
  searchQuery :: string
  inboxFilters :: filters
  inbox_loading :: bool
  inbox_error :: "string option"
  inbox_log :: "effect list"

text \<open>The query of the live request, and the query of the cache fallback.\<close>

definition live_params :: "string option \<Rightarrow> int \<Rightarrow> string \<Rightarrow> filters \<Rightarrow> params" where
  "live_params folderId k search fl =
     (let p0 = [(''skip'', JNum k), (''top'', JStr ''25'')];
          p1 = (case folderId of
                  None \<Rightarrow> p0
                | Some f \<Rightarrow> if f \<noteq> [] then params_set p0 ''folder_id'' (JStr f) else p0);
          p2 = (if search \<noteq> [] then params_set p1 ''search'' (JStr search) else p1);
          p3 = (if from_date fl \<noteq> [] then params_set p2 ''from_date'' (JStr (from_date fl)) else p2);
          p4 = (if to_date fl \<noteq> [] then params_set p3 ''to_date'' (JStr (to_date fl)) else p3)
      in if sender fl \<noteq> [] then params_set p4 ''sender'' (JStr (sender fl)) else p4)"

definition cache_params :: "string option \<Rightarrow> int \<Rightarrow> string \<Rightarrow> filters \<Rightarrow> params" where
  "cache_params folderId k search fl =
     (let p0 = [(''skip'', JNum k), (''top'', JStr ''25''), (''source'', JStr ''cache'')];
          p1 = (case folderId of
                  None \<Rightarrow> p0
                | Some f \<Rightarrow> if f \<noteq> [] then params_set p0 ''folder_id'' (JStr f) else p0);
          p2 = (if search \<noteq> [] then params_set p1 ''search'' (JStr search) else p1)
      in if sender fl \<noteq> [] then params_set p2 ''sender'' (JStr (sender fl)) else p2)"

text \<open>
  \<open>loadEmails\<close>. \<open>r\<close> is the outcome of the live request, \<open>rc\<close> that of the cache
  request, which is read only when that request is sent. \<open>emailsFromCache\<close> is read
  from the state in which the handler was called. The dash in the notice is written
  as a hyphen.
\<close>

definition loadEmails ::
  "string option \<Rightarrow> int \<Rightarrow> string \<Rightarrow> filters \<Rightarrow> emails_json response \<Rightarrow>
   emails_json response \<Rightarrow> inbox_state \<Rightarrow> inbox_state" where
  "loadEmails folderId k search fl r rc s =
     (let s1 = s\<lparr>inbox_loading := True, inbox_error := None,
                   inbox_log := inbox_log s @
                     [Fetch (Get ''/api/emails'' (live_params folderId k search fl))]\<rparr>;
          s2 =
            (case r of
               Ok data \<Rightarrow>
                 s1\<lparr>emails := or_list (ej_emails data),
                    pagination := \<lparr>skip = k, top = 25, total = or_int (ej_total data) 0\<rparr>,
                    emailsFromCache := False\<rparr>
             | _ \<Rightarrow>
                 (let s3 =
                    (if \<not> emailsFromCache s then
                       (let s4 = s1\<lparr>inbox_log := inbox_log s1 @
                                  [Fetch (Get ''/api/emails'' (cache_params folderId k search fl))]\<rparr>
                        in case rc of
                             Ok cData \<Rightarrow>
                               (if or_list (ej_emails cData) \<noteq> [] then
                                  s4\<lparr>emails := or_list (ej_emails cData),
                                     pagination :=
                                       \<lparr>skip = k, top = 25, total = or_int (ej_total cData) 0\<rparr>,
                                     emailsFromCache := True\<rparr>
                                else s4)
                           | _ \<Rightarrow> s4)
                     else s1)
                  in s3\<lparr>inbox_log := inbox_log s3 @
                         [Notify ''IMAP unavailable - showing cached emails'' ''error'']\<rparr>))
      in s2\<lparr>inbox_loading := False\<rparr>)"

text \<open>The banner "Showing cached emails": \<open>emailsFromCache && emails.length > 0\<close>.\<close>

definition cache_banner :: "inbox_state \<Rightarrow> bool" where
  "cache_banner s = (emailsFromCache s \<and> emails s \<noteq> [])"

subsection \<open>Pagination controls\<close>






text \<open>The listing slices when the component mounts.\<close>

definition inbox_init :: inbox_state where
  "inbox_init =
     \<lparr>emails = [], pagination = \<lparr>skip = 0, top = 25, total = 0\<rparr>, emailsFromCache = False,
      activeFolder = None, searchQuery = [],
      inboxFilters = \<lparr>from_date = [], to_date = [], sender = []\<rparr>,
      inbox_loading = False, inbox_error = None, inbox_log = []\<rparr>"

subsection \<open>The cache fallback\<close>

lemma loadEmails_live_first:
  "\<exists>rest. added (inbox_log s) (inbox_log (loadEmails folderId k search fl r rc s)) =
     Fetch (Get ''/api/emails'' (live_params folderId k search fl)) # rest"
  by (cases r; cases rc) (simp_all add: loadEmails_def Let_def)


lemma loadEmails_banner_iff:
  assumes "failed r" and "\<not> emailsFromCache s"
  shows "cache_banner (loadEmails folderId k search fl r rc s) \<longleftrightarrow>
           (\<exists>d. rc = Ok d \<and> or_list (ej_emails d) \<noteq> [])"
  using assms by (cases r; cases rc) (simp_all add: loadEmails_def Let_def cache_banner_def)

lemma map_of_params_set:
  "map_of (params_set ps k v) k' = (if k' = k then Some v else map_of ps k')"
  by (induction ps k v rule: params_set.induct) auto

lemma map_of_if_set:
  "map_of (if b then params_set ps k v else ps) k' =
     (if b \<and> k' = k then Some v else map_of ps k')"
  by (simp add: map_of_params_set)

text \<open>
  The cache request carries the source marker, and the folder, the search text and the
  sender exactly as the live request does.
\<close>

lemma cache_params_shared_filters:
  "map_of (cache_params folderId k search fl) ''source'' = Some (JStr ''cache'')"
  "map_of (cache_params folderId k search fl) ''folder_id'' =
     map_of (live_params folderId k search fl) ''folder_id''"
  "map_of (cache_params folderId k search fl) ''search'' =
     map_of (live_params folderId k search fl) ''search''"
  "map_of (cache_params folderId k search fl) ''sender'' =
     map_of (live_params folderId k search fl) ''sender''"
  by (cases folderId; simp add: cache_params_def live_params_def Let_def map_of_if_set)+

text \<open>A listing filtered to January 2024, requested while the mail server is down.\<close>

definition january :: filters where
  "january = \<lparr>from_date = ''2024-01-01'', to_date = ''2024-01-31'', sender = []\<rparr>"

definition cached_mail :: emails_json where
  "cached_mail =
     \<lparr>ej_emails = Some [\<lparr>email_id = ''m1'', email_subject = ''March invoice''\<rparr>],
      ej_total = Some 1\<rparr>"

text \<open>
  C1 on the code. The live request carries the date range; the cache request that
  follows its failure carries the source marker but neither \<open>from_date\<close> nor
  \<open>to_date\<close>, and its answer is adopted with the banner.
\<close>

theorem C1_cache_fetch_drops_date_range:
  "fetches_of (added (inbox_log inbox_init)
      (inbox_log (loadEmails None 0 [] january NetworkError (Ok cached_mail) inbox_init))) =
     [Get ''/api/emails''
        [(''skip'', JNum 0), (''top'', JStr ''25''),
         (''from_date'', JStr ''2024-01-01''), (''to_date'', JStr ''2024-01-31'')],
      Get ''/api/emails''
        [(''skip'', JNum 0), (''top'', JStr ''25''), (''source'', JStr ''cache'')]] \<and>
   cache_banner (loadEmails None 0 [] january NetworkError (Ok cached_mail) inbox_init) \<and>
   emails (loadEmails None 0 [] january NetworkError (Ok cached_mail) inbox_init) =
     [\<lparr>email_id = ''m1'', email_subject = ''March invoice''\<rparr>]"
  by (simp add: loadEmails_def Let_def inbox_init_def january_def cached_mail_def
        live_params_def cache_params_def cache_banner_def)


subsection \<open>The pagination window\<close>










section \<open>Notifications\<close>

text \<open>A notification; an absent \<open>message\<close> is the empty string (\<open>n.message || n.title\<close>).\<close>

record notification =
  n_id :: string
  n_type :: string
  n_title :: string
  n_message :: string
  is_read :: bool

text \<open>The body of \<open>GET /api/notifications/count\<close>.\<close>

record count_json =
  unread_count :: "int option"
  cj_count :: "int option"

text \<open>
  The body of \<open>GET /api/notifications\<close>: an array, or an object whose field
  \<open>notifications\<close> may be absent.
\<close>

datatype notifs_json = JArray "notification list" | JObject "notification list option"

fun items_of :: "notifs_json \<Rightarrow> notification list" where
  "items_of (JArray xs) = xs"
| "items_of (JObject xs) = or_list xs"

text \<open>
  \<open>toasts\<close> lists the toasts raised, oldest first, as message and type; the random id
  of a toast and the timer that removes it after five seconds are left out.
\<close>

record notif_state =
  notifications :: "notification list"
  unreadCount :: int
  prevUnreadCountRef :: int
  notifDropdownOpen :: bool
  toasts :: "(string \<times> string) list"
  notif_view :: string
  notif_log :: "effect list"

definition showToast :: "string \<Rightarrow> string \<Rightarrow> notif_state \<Rightarrow> notif_state" where
  "showToast message ty s = s\<lparr>toasts := toasts s @ [(message, ty)]\<rparr>"

text \<open>\<open>data.unread_count ?? data.count ?? 0\<close>\<close>

definition newCount_of :: "count_json \<Rightarrow> int" where
  "newCount_of data =
     (case unread_count data of
        Some n \<Rightarrow> n
      | None \<Rightarrow> (case cj_count data of Some n \<Rightarrow> n | None \<Rightarrow> 0))"

text \<open>
  \<open>loadNotificationCount\<close> returns the value the function resolves to (\<open>None\<close> for
  \<open>undefined\<close>) and the state once React has run the updater passed to
  \<open>setUnreadCount\<close>: the ref holds the count held before, the count is the fetched one.
\<close>

definition loadNotificationCount ::
  "count_json response \<Rightarrow> notif_state \<Rightarrow> notif_state \<times> int option" where
  "loadNotificationCount r s =
     (let s1 = s\<lparr>notif_log := notif_log s @ [Fetch (Get ''/api/notifications/count'' [])]\<rparr>
      in case r of
           Ok data \<Rightarrow>
             (s1\<lparr>prevUnreadCountRef := unreadCount s1, unreadCount := newCount_of data\<rparr>,
              Some (newCount_of data))
         | _ \<Rightarrow> (s1, None))"

definition loadNotifications :: "notifs_json response \<Rightarrow> notif_state \<Rightarrow> notif_state" where
  "loadNotifications r s =
     (let s1 = s\<lparr>notif_log := notif_log s @
                   [Fetch (Get ''/api/notifications'' [(''limit'', JNum 20)])]\<rparr>
      in case r of
           Ok data \<Rightarrow> s1\<lparr>notifications := items_of data\<rparr>
         | _ \<Rightarrow> s1)"

text \<open>The items a tick toasts, out of the list it fetched.\<close>

definition toastable :: "notification list \<Rightarrow> notification list" where
  "toastable items = take 3 (filter (\<lambda>n. \<not> is_read n \<and> n_type n = ''new_high_fit'') items)"

definition toast_text :: "notification \<Rightarrow> string" where
  "toast_text n = (if n_message n \<noteq> [] then n_message n else n_title n)"

text \<open>
  The ref \<open>prevUnreadCountRef\<close> is written only inside that updater, and the tick reads
  it right after \<open>await loadNotificationCount()\<close>. When React runs the updater is
  decided by the root the component is mounted in, which is created outside the
  source at hand: a root made by \<open>createRoot\<close> (React 18) runs it at the next render,
  after the tick has read the ref, so the tick reads what the previous successful
  tick wrote; a legacy root runs it inside the setter, so the tick reads the count
  held just before. A tick takes this as the parameter \<open>at_call\<close>. \<open>ref_read\<close> is the
  value of \<open>prevUnreadCountRef.current\<close> at the comparison, given the state before the
  tick.
\<close>

definition ref_read :: "bool \<Rightarrow> notif_state \<Rightarrow> int" where
  "ref_read at_call s = (if at_call then unreadCount s else prevUnreadCountRef s)"

text \<open>
  One run of the callback of \<open>setInterval(..., 60000)\<close>. \<open>rc\<close> is the outcome of the
  count request, \<open>rl\<close> that of the list request, read only when that request is sent.
\<close>

definition poll_tick ::
  "bool \<Rightarrow> count_json response \<Rightarrow> notifs_json response \<Rightarrow> notif_state \<Rightarrow> notif_state" where
  "poll_tick at_call rc rl s =
     (case loadNotificationCount rc s of
        (s1, None) \<Rightarrow> s1
      | (s1, Some newCount) \<Rightarrow>
          if newCount > ref_read at_call s then
            (let s2 = s1\<lparr>notif_log := notif_log s1 @
                          [Fetch (Get ''/api/notifications'' [(''limit'', JNum 10)])]\<rparr>
             in case rl of
                  Ok data \<Rightarrow>
                    foldl (\<lambda>st n. showToast (toast_text n) ''new_high_fit'' st) s2
                      (toastable (items_of data))
                | _ \<Rightarrow> s2)
          else s1)"

text \<open>
  "Mark all read". The handler awaits the PATCH inside \<open>try\<close> and does not look at
  the status: a rejected request skips the rest, any answer lets it run.
\<close>

definition mark_all_read ::
  "unit response \<Rightarrow> notifs_json response \<Rightarrow> notif_state \<Rightarrow> notif_state" where
  "mark_all_read r rl s =
     (let s1 = s\<lparr>notif_log := notif_log s @
                   [Fetch (Patch ''/api/notifications/read-all'' [])]\<rparr>
      in case r of
           NetworkError \<Rightarrow> s1
         | _ \<Rightarrow> loadNotifications rl (s1\<lparr>unreadCount := 0\<rparr>))"

text \<open>
  A click on the notification \<open>n\<close> of the dropdown. The PATCH of an unread item is
  awaited in a \<open>try\<close> of its own, so every outcome is followed by the local update.
\<close>

definition click_notification ::
  "notification \<Rightarrow> unit response \<Rightarrow> notif_state \<Rightarrow> notif_state" where
  "click_notification n r s =
     (let s1 =
            (if \<not> is_read n then
               s\<lparr>notif_log := notif_log s @
                    [Fetch (Patch (''/api/notifications/'' @ n_id n @ ''/read'') [])],
                 notifications :=
                    map (\<lambda>x. if n_id x = n_id n then x\<lparr>is_read := True\<rparr> else x)
                      (notifications s),
                 unreadCount := max 0 (unreadCount s - 1)\<rparr>
             else s)
      in s1\<lparr>notifDropdownOpen := False,
            notif_view :=
              (if n_type n = ''new_high_fit'' then ''jobs''
               else if n_type n = ''new_candidate'' then ''candidates''
               else notif_view s1)\<rparr>)"

text \<open>The notification slices when the component mounts.\<close>

definition notif_init :: notif_state where
  "notif_init =
     \<lparr>notifications = [], unreadCount = 0, prevUnreadCountRef = 0,
      notifDropdownOpen = False, toasts = [], notif_view = ''inbox'', notif_log = []\<rparr>"

subsection \<open>The unread count\<close>

lemma loadNotifications_unreadCount:
  "unreadCount (loadNotifications r s) = unreadCount s"
  by (cases r) (simp_all add: loadNotifications_def Let_def)

text \<open>Three unread notifications, and the server cannot be reached.\<close>

definition three_unread :: notif_state where
  "three_unread =
     fst (loadNotificationCount (Ok \<lparr>unread_count = Some 3, cj_count = None\<rparr>) notif_init)"

text \<open>
  C10, as stated, fails for "Mark all read": when the request is rejected the count is
  not set to zero; it stays at three.
\<close>

theorem C10_mark_all_keeps_count_when_rejected:
  "unreadCount three_unread = 3 \<and>
   unreadCount (mark_all_read NetworkError NetworkError three_unread) = 3"
  by (simp add: three_unread_def loadNotificationCount_def mark_all_read_def Let_def
        notif_init_def newCount_of_def)

text \<open>
  C10, amended. A click on an unread notification sets the count to
  \<open>max 0 (count - 1)\<close>, whatever the outcome of its request, and a click on a read one
  leaves the count unchanged. "Mark all read" sets the count to zero once its request
  has been answered, whatever the status, and leaves it unchanged when the request is
  rejected. So these handlers never produce a negative count, and they keep a
  non-negative count non-negative; a count request stores what the server reports.
\<close>

theorem C10_unread_count:
  "(\<not> is_read n \<longrightarrow>
      unreadCount (click_notification n r s) = max 0 (unreadCount s - 1) \<and>
      0 \<le> unreadCount (click_notification n r s)) \<and>
   (is_read n \<longrightarrow> unreadCount (click_notification n r s) = unreadCount s) \<and>
   (r \<noteq> NetworkError \<longrightarrow> unreadCount (mark_all_read r rl s) = 0) \<and>
   (r = NetworkError \<longrightarrow> unreadCount (mark_all_read r rl s) = unreadCount s) \<and>
   (0 \<le> unreadCount s \<longrightarrow>
      0 \<le> unreadCount (click_notification n r s) \<and>
      0 \<le> unreadCount (mark_all_read r rl s)) \<and>
   (rc = Ok data \<longrightarrow> unreadCount (fst (loadNotificationCount rc s)) = newCount_of data) \<and>
   (failed rc \<longrightarrow> unreadCount (fst (loadNotificationCount rc s)) = unreadCount s)"
proof -
  have click: "unreadCount (click_notification n r s) =
      (if is_read n then unreadCount s else max 0 (unreadCount s - 1))"
    by (simp add: click_notification_def Let_def)
  have mark: "unreadCount (mark_all_read r rl s) = (if r = NetworkError then unreadCount s else 0)"
    by (cases r) (simp_all add: mark_all_read_def Let_def loadNotifications_unreadCount)
  have cnt: "unreadCount (fst (loadNotificationCount rc s)) =
      (case rc of Ok d \<Rightarrow> newCount_of d | _ \<Rightarrow> unreadCount s)"
    by (cases rc) (simp_all add: loadNotificationCount_def Let_def)
  show ?thesis
    unfolding click mark cnt by (cases rc) auto
qed

definition unread_item :: notification where
  "unread_item =
     \<lparr>n_id = ''n1'', n_type = ''new_candidate'', n_title = ''New candidate'',
      n_message = ''Ann applied'', is_read = False\<rparr>"

theorem C10_unread_count_witness:
  "\<not> is_read unread_item \<and>
   unreadCount (click_notification unread_item (HttpError ''500'') notif_init) = 0 \<and>
   unreadCount (click_notification unread_item (HttpError ''500'') three_unread) = 2 \<and>
   is_read (unread_item\<lparr>is_read := True\<rparr>) \<and>
   unreadCount (click_notification (unread_item\<lparr>is_read := True\<rparr>) (Ok ()) three_unread) = 3 \<and>
   HttpError ''500'' \<noteq> (NetworkError :: unit response) \<and>
   unreadCount (mark_all_read (HttpError ''500'') NetworkError three_unread) = 0 \<and>
   0 \<le> unreadCount three_unread \<and>
   failed (BadJson :: count_json response) \<and>
   unreadCount (fst (loadNotificationCount BadJson three_unread)) = 3 \<and>
   unreadCount (mark_all_read NetworkError NetworkError three_unread) = 3 \<and>
   unreadCount (fst (loadNotificationCount (Ok \<lparr>unread_count = None, cj_count = Some 5\<rparr>)
      three_unread)) = 5"
proof -
  have u: "unreadCount three_unread = 3" "unreadCount notif_init = 0"
    by (simp_all add: three_unread_def loadNotificationCount_def Let_def notif_init_def
          newCount_of_def)
  have i: "\<not> is_read unread_item" by (simp add: unread_item_def)
  show ?thesis
    using C10_unread_count [of unread_item "HttpError ''500''" notif_init NetworkError BadJson]
      C10_unread_count [of unread_item "HttpError ''500''" three_unread NetworkError BadJson]
      C10_unread_count [of "unread_item\<lparr>is_read := True\<rparr>" "Ok ()" three_unread NetworkError
        BadJson]
      C10_unread_count [of unread_item NetworkError three_unread NetworkError
        "Ok \<lparr>unread_count = None, cj_count = Some 5\<rparr>"
        "\<lparr>unread_count = None, cj_count = Some 5\<rparr>"]
      u i
    by (simp add: newCount_of_def)
qed


subsection \<open>The poll\<close>



lemma poll_tick_failed:
  "failed rc \<Longrightarrow>
   poll_tick m rc rl s =
     s\<lparr>notif_log := notif_log s @ [Fetch (Get ''/api/notifications/count'' [])]\<rparr>"
  by (cases rc) (simp_all add: poll_tick_def loadNotificationCount_def Let_def)




lemma poll_tick_failed_fetches:
  "failed rc \<Longrightarrow>
   fetches_of (added (notif_log s) (notif_log (poll_tick m rc rl s))) =
     [Get ''/api/notifications/count'' []]"
  by (simp add: poll_tick_failed)


lemma toastable_unread_high_fit:
  "list_all (\<lambda>n. \<not> is_read n \<and> n_type n = ''new_high_fit'') (toastable items)"
  by (auto simp: toastable_def list_all_iff dest: in_set_takeD)














section \<open>The debounced search inputs\<close>

text \<open>
  \<open>useDebounce(value, delay)\<close> together with the effect that depends on its result.
  React runs an effect again only when one of its dependencies has changed, after the
  cleanup of the previous run, and a state setter called with the current value causes
  no render. So the hook's effect (dependencies \<open>value\<close>, \<open>delay\<close>) clears the pending
  timer and starts a new one exactly when the value changes, and the fetch effect
  (dependency: the debounced value) runs exactly when the timer's callback changes the
  debounced value. The runs of both effects at mount are left out.

  \<open>timer\<close> is the pending \<open>setTimeout\<close>: the milliseconds left and the value its
  callback holds. \<open>guard\<close> is the condition inside the fetch effect
  (\<open>auth.authenticated\<close> for the mail search, together with \<open>view === "candidates"\<close> for
  the candidate search). \<open>search_fetches\<close> lists the search text of every fetch the
  effect has issued, oldest first.
\<close>

record debounce_state =
  dvalue :: string
  debounced :: string
  timer :: "(nat \<times> string) option"
  guard :: bool
  mounted :: bool
  search_fetches :: "string list"

text \<open>The input's \<open>onChange\<close> sets the raw value.\<close>

definition setValue :: "nat \<Rightarrow> string \<Rightarrow> debounce_state \<Rightarrow> debounce_state" where
  "setValue delay v s =
     (if \<not> mounted s \<or> v = dvalue s then s
      else s\<lparr>dvalue := v, timer := Some (delay, v)\<rparr>)"

text \<open>\<open>d\<close> milliseconds pass; a timer whose time is up runs \<open>setDebounced(value)\<close>.\<close>

definition elapse :: "nat \<Rightarrow> debounce_state \<Rightarrow> debounce_state" where
  "elapse d s =
     (case timer s of
        None \<Rightarrow> s
      | Some (left, v) \<Rightarrow>
          if d < left then s\<lparr>timer := Some (left - d, v)\<rparr>
          else s\<lparr>timer := None, debounced := v,
                 search_fetches :=
                   search_fetches s @ (if v \<noteq> debounced s \<and> guard s then [v] else [])\<rparr>)"

text \<open>Unmounting runs the cleanup \<open>clearTimeout(timer)\<close>.\<close>

definition unmount :: "debounce_state \<Rightarrow> debounce_state" where
  "unmount s = s\<lparr>timer := None, mounted := False\<rparr>"

text \<open>Keystrokes: each is a pause since the previous one and the value it leaves.\<close>

fun run_keys :: "nat \<Rightarrow> (nat \<times> string) list \<Rightarrow> debounce_state \<Rightarrow> debounce_state" where
  "run_keys delay [] s = s"
| "run_keys delay ((gap, v) # ks) s = run_keys delay ks (setValue delay v (elapse gap s))"

text \<open>
  Every keystroke after the value \<open>v\<close> comes within the window and changes the value.
\<close>

fun within_window :: "nat \<Rightarrow> string \<Rightarrow> (nat \<times> string) list \<Rightarrow> bool" where
  "within_window delay v [] = True"
| "within_window delay v ((gap, v') # ks) =
     (gap < delay \<and> v' \<noteq> v \<and> within_window delay v' ks)"

fun final_value :: "string \<Rightarrow> (nat \<times> string) list \<Rightarrow> string" where
  "final_value v [] = v"
| "final_value v ((gap, v') # ks) = final_value v' ks"

text \<open>The search box of a signed-in user, at rest.\<close>

definition at_rest :: debounce_state where
  "at_rest =
     \<lparr>dvalue = [], debounced = [], timer = None, guard = True, mounted = True,
      search_fetches = []\<rparr>"

lemma run_keys_pending:
  assumes "mounted s" and "dvalue s = v" and "timer s = Some (delay, v)"
    and "within_window delay v ks"
  shows "run_keys delay ks s =
           s\<lparr>dvalue := final_value v ks, timer := Some (delay, final_value v ks)\<rparr>"
  using assms
proof (induction ks arbitrary: s v)
  case Nil
  then show ?case by simp
next
  case (Cons k ks)
  obtain gap v' where k: "k = (gap, v')" by (cases k)
  from Cons.prems k have w: "gap < delay" "v' \<noteq> v" "within_window delay v' ks"
    by simp_all
  let ?s1 = "setValue delay v' (elapse gap s)"
  have s1: "?s1 = s\<lparr>dvalue := v', timer := Some (delay, v')\<rparr>"
    using Cons.prems(1-3) w(1,2) by (simp add: setValue_def elapse_def)
  have "run_keys delay ks ?s1 =
      ?s1\<lparr>dvalue := final_value v' ks, timer := Some (delay, final_value v' ks)\<rparr>"
    by (rule Cons.IH) (use Cons.prems(1) w(3) in \<open>simp_all add: s1\<close>)
  then show ?case by (simp add: k s1)
qed

lemma setValue_change:
  "mounted s \<Longrightarrow> v \<noteq> dvalue s \<Longrightarrow> setValue delay v s = s\<lparr>dvalue := v, timer := Some (delay, v)\<rparr>"
  by (simp add: setValue_def)

lemma burst_state:
  assumes "mounted s" and "v0 \<noteq> dvalue s" and "within_window delay v0 ks"
  shows "run_keys delay ks (setValue delay v0 s) =
           s\<lparr>dvalue := final_value v0 ks, timer := Some (delay, final_value v0 ks)\<rparr>"
proof -
  let ?s0 = "s\<lparr>dvalue := v0, timer := Some (delay, v0)\<rparr>"
  have "run_keys delay ks ?s0 =
      ?s0\<lparr>dvalue := final_value v0 ks, timer := Some (delay, final_value v0 ks)\<rparr>"
    by (rule run_keys_pending) (use assms in simp_all)
  then show ?thesis using assms(1,2) by (simp add: setValue_change)
qed

text \<open>
  C2, as stated, fails: a letter typed and deleted again within the window leaves the
  value the debounced state already holds, and no fetch is issued at all.
\<close>

theorem C2_typed_and_deleted_no_fetch:
  "within_window 300 ''a'' [(100, '''')] \<and>
   search_fetches (elapse 300 (run_keys 300 [(100, '''')] (setValue 300 ''a'' at_rest))) = []"
  by (simp add: at_rest_def setValue_def elapse_def)

text \<open>
  C2, amended. Let a burst of keystrokes start with a change of the value, each later
  keystroke changing the value again within the window of the one before. Once the
  window has elapsed after the last keystroke, the fetches issued since the burst began
  are: exactly one, with the final value, when the effect's guard holds and the final
  value differs from the debounced value held before the burst; none otherwise. No
  fetch carries a superseded value, no timer is left pending, and if the component
  unmounts before the window has elapsed no fetch is issued at all.
\<close>

theorem C2_debounce_single_fetch:
  assumes "mounted s" and "v0 \<noteq> dvalue s" and "within_window delay v0 ks" and "delay \<le> d"
  shows "search_fetches (elapse d (run_keys delay ks (setValue delay v0 s))) =
           search_fetches s @
             (if final_value v0 ks \<noteq> debounced s \<and> guard s then [final_value v0 ks] else []) \<and>
         timer (elapse d (run_keys delay ks (setValue delay v0 s))) = None \<and>
         debounced (elapse d (run_keys delay ks (setValue delay v0 s))) = final_value v0 ks \<and>
         search_fetches (elapse d (unmount (run_keys delay ks (setValue delay v0 s)))) =
           search_fetches s"
  using assms(4) by (simp add: burst_state [OF assms(1-3)] elapse_def unmount_def)

text \<open>
  The scenario of the specification: "anna", then "annab" 100 ms later; after 300 ms
  without a keystroke there is exactly one fetch, for "annab".
\<close>

theorem C2_debounce_witness:
  "mounted at_rest \<and> ''anna'' \<noteq> dvalue at_rest \<and>
   within_window 300 ''anna'' [(100, ''annab'')] \<and> (300::nat) \<le> 300 \<and>
   search_fetches (elapse 300 (run_keys 300 [(100, ''annab'')] (setValue 300 ''anna'' at_rest))) =
     [''annab''] \<and>
   search_fetches
     (elapse 300 (unmount (run_keys 300 [(100, ''annab'')] (setValue 300 ''anna'' at_rest)))) = []"
proof -
  have h: "mounted at_rest" "''anna'' \<noteq> dvalue at_rest"
    "within_window 300 ''anna'' [(100, ''annab'')]" "(300::nat) \<le> 300"
    by (simp_all add: at_rest_def)
  have v: "search_fetches at_rest = []" "debounced at_rest = []" "guard at_rest"
    by (simp_all add: at_rest_def)
  show ?thesis
    using C2_debounce_single_fetch [OF h] h v by simp
qed


section \<open>What a loader does with a failure\<close>

text \<open>The notices a handler showed: the calls of \<open>notify\<close> among the effects it added.\<close>

definition notices :: "effect list \<Rightarrow> effect list \<Rightarrow> effect list" where
  "notices old new = filter is_notify (added old new)"

lemma notices_append [simp]: "notices xs (xs @ ys) = filter is_notify ys"
  by (simp add: notices_def)

lemma loadStats_failed:
  "failed r \<Longrightarrow> stats (loadStats r s) = stats s \<and>
     notices (log s) (log (loadStats r s)) = [Notify ''Failed to load stats'' ''error'']"
  by (cases r) (simp_all add: loadStats_def Let_def send_def notify_def)

lemma loadAttachments_failed:
  "failed r \<Longrightarrow> storedAttachments (loadAttachments ty r s) = storedAttachments s \<and>
     notices (log s) (log (loadAttachments ty r s)) =
       [Notify ''Failed to load attachments'' ''error'']"
  by (cases r) (simp_all add: loadAttachments_def Let_def send_def notify_def)

lemma loadCandidates_failed:
  "failed r \<Longrightarrow> candidates (loadCandidates q tg r s) = candidates s \<and>
     notices (log s) (log (loadCandidates q tg r s)) =
       [Notify ''Failed to load candidates'' ''error'']"
  by (cases r) (simp_all add: loadCandidates_def Let_def send_def notify_def)

lemma loadJobs_failed:
  "failed r \<Longrightarrow> jobs (loadJobs r s) = jobs s \<and>
     notices (log s) (log (loadJobs r s)) = [Notify ''Failed to load jobs'' ''error'']"
  by (cases r) (simp_all add: loadJobs_def Let_def send_def notify_def)

lemma loadStorageHealth_failed:
  "failed r \<Longrightarrow> storageHealth (loadStorageHealth r s) = storageHealth s \<and>
     notices (log s) (log (loadStorageHealth r s)) =
       [Notify ''Failed to load storage health'' ''error'']"
  by (cases r) (simp_all add: loadStorageHealth_def Let_def send_def notify_def)

lemma loadFolders_failed:
  "failed r \<Longrightarrow> folders (loadFolders r s) = folders s \<and>
     notices (log s) (log (loadFolders r s)) = []"
  by (cases r) (simp_all add: loadFolders_def Let_def send_def console_error_def)

lemma loadMatchResults_failed:
  "failed r \<Longrightarrow> matchResults (loadMatchResults j r s) = [] \<and>
     notices (log s) (log (loadMatchResults j r s)) = []"
  by (cases r) (simp_all add: loadMatchResults_def Let_def send_def)

lemma loadNotifications_failed:
  "failed r \<Longrightarrow> notifications (loadNotifications r n) = notifications n \<and>
     notices (notif_log n) (notif_log (loadNotifications r n)) = []"
  by (cases r) (simp_all add: loadNotifications_def Let_def)

lemma loadNotificationCount_failed:
  "failed r \<Longrightarrow> unreadCount (fst (loadNotificationCount r n)) = unreadCount n \<and>
     notices (notif_log n) (notif_log (fst (loadNotificationCount r n))) = []"
  by (cases r) (simp_all add: loadNotificationCount_def Let_def)

lemma loadSchedulerConfig_failed:
  "failed r \<Longrightarrow> schedulerConfig (loadSchedulerConfig r c) = schedulerConfig c \<and>
     schedulerForm (loadSchedulerConfig r c) = schedulerForm c \<and>
     notices (sched_log c) (sched_log (loadSchedulerConfig r c)) = []"
  by (cases r) (simp_all add: loadSchedulerConfig_def Let_def)

lemma loadEmails_failed:
  "failed r \<Longrightarrow>
     notices (inbox_log i) (inbox_log (loadEmails f k q fl r rc i)) =
       [Notify ''IMAP unavailable - showing cached emails'' ''error''] \<and>
     emails (loadEmails f k q fl r rc i) =
       (if cache_banner (loadEmails f k q fl r rc i) \<and> \<not> emailsFromCache i
        then (case rc of Ok d \<Rightarrow> or_list (ej_emails d) | _ \<Rightarrow> emails i)
        else emails i)"
  by (cases r; cases rc) (simp_all add: loadEmails_def Let_def cache_banner_def)

lemma loaders_succeed:
  "stats (loadStats (Ok d1) s) = Some d1"
  "storedAttachments (loadAttachments ty (Ok d2) s) = d2"
  "candidates (loadCandidates q tg (Ok d3) s) = d3"
  "jobs (loadJobs (Ok d4) s) = d4"
  "storageHealth (loadStorageHealth (Ok d5) s) = Some d5"
  "folders (loadFolders (Ok d6) s) = d6"
  "matchResults (loadMatchResults j (Ok d7) s) = or_list (results d7)"
  by (simp_all add: loadStats_def loadAttachments_def loadCandidates_def loadJobs_def
        loadStorageHealth_def loadFolders_def loadMatchResults_def Let_def send_def)

lemma loaders_succeed_other:
  "notifications (loadNotifications (Ok d8) n) = items_of d8"
  "unreadCount (fst (loadNotificationCount (Ok d9) n)) = newCount_of d9"
  "schedulerConfig (loadSchedulerConfig (Ok d10) c) = Some d10"
  "emails (loadEmails f k q fl (Ok d11) rc i) = or_list (ej_emails d11)"
  by (simp_all add: loadNotifications_def loadNotificationCount_def loadSchedulerConfig_def
        loadEmails_def Let_def)

text \<open>Match results of one job on the screen.\<close>

definition with_results :: recruit_state where
  "with_results =
     loadMatchResults ''j1'' (Ok \<lparr>results = Some [Json ''match-1'', Json ''match-2'']\<rparr>)
       recruit_init"

text \<open>
  C5, as stated, fails for the match results: when their request fails the slice is
  not kept but emptied, and no notice is shown.
\<close>

theorem C5_match_results_cleared_on_failure:
  "matchResults with_results = [Json ''match-1'', Json ''match-2''] \<and>
   matchResults (loadMatchResults ''j1'' (HttpError ''500'') with_results) = [] \<and>
   notices (log with_results) (log (loadMatchResults ''j1'' (HttpError ''500'') with_results)) = []"
  by (simp add: with_results_def loadMatchResults_def Let_def send_def recruit_init_def
        notices_def added_def)

text \<open>
  C5, amended. No loader lets a failure escape: each returns to the component with a
  state. On a failed request
  \<^item> the loaders of statistics, attachments, candidates, jobs and storage health leave
    their slice untouched and show one error notice;
  \<^item> the loaders of folders, notifications, the notification count and the scheduler
    configuration leave their slice untouched and show no notice;
  \<^item> the loader of match results sets its slice to the empty list and shows no notice;
  \<^item> the loader of emails shows one notice, and keeps the listing unless it adopts the
    answer of the cache fallback.
  On success each loader replaces its slice with the response, an absent list field
  counting as the empty list.
\<close>

theorem C5_loaders:
  "(failed r1 \<longrightarrow> stats (loadStats r1 s) = stats s \<and>
      notices (log s) (log (loadStats r1 s)) = [Notify ''Failed to load stats'' ''error'']) \<and>
   (failed r2 \<longrightarrow> storedAttachments (loadAttachments ty r2 s) = storedAttachments s \<and>
      notices (log s) (log (loadAttachments ty r2 s)) =
        [Notify ''Failed to load attachments'' ''error'']) \<and>
   (failed r3 \<longrightarrow> candidates (loadCandidates q tg r3 s) = candidates s \<and>
      notices (log s) (log (loadCandidates q tg r3 s)) =
        [Notify ''Failed to load candidates'' ''error'']) \<and>
   (failed r4 \<longrightarrow> jobs (loadJobs r4 s) = jobs s \<and>
      notices (log s) (log (loadJobs r4 s)) = [Notify ''Failed to load jobs'' ''error'']) \<and>
   (failed r5 \<longrightarrow> storageHealth (loadStorageHealth r5 s) = storageHealth s \<and>
      notices (log s) (log (loadStorageHealth r5 s)) =
        [Notify ''Failed to load storage health'' ''error'']) \<and>
   (failed r6 \<longrightarrow> folders (loadFolders r6 s) = folders s \<and>
      notices (log s) (log (loadFolders r6 s)) = []) \<and>
   (failed r7 \<longrightarrow> matchResults (loadMatchResults j r7 s) = [] \<and>
      notices (log s) (log (loadMatchResults j r7 s)) = []) \<and>
   (failed r8 \<longrightarrow> notifications (loadNotifications r8 n) = notifications n \<and>
      notices (notif_log n) (notif_log (loadNotifications r8 n)) = []) \<and>
   (failed r9 \<longrightarrow> unreadCount (fst (loadNotificationCount r9 n)) = unreadCount n \<and>
      notices (notif_log n) (notif_log (fst (loadNotificationCount r9 n))) = []) \<and>
   (failed r10 \<longrightarrow> schedulerConfig (loadSchedulerConfig r10 c) = schedulerConfig c \<and>
      schedulerForm (loadSchedulerConfig r10 c) = schedulerForm c \<and>
      notices (sched_log c) (sched_log (loadSchedulerConfig r10 c)) = []) \<and>
   (failed r11 \<longrightarrow>
      notices (inbox_log i) (inbox_log (loadEmails f k q' fl r11 rc i)) =
        [Notify ''IMAP unavailable - showing cached emails'' ''error''] \<and>
      emails (loadEmails f k q' fl r11 rc i) =
        (if cache_banner (loadEmails f k q' fl r11 rc i) \<and> \<not> emailsFromCache i
         then (case rc of Ok d \<Rightarrow> or_list (ej_emails d) | _ \<Rightarrow> emails i)
         else emails i)) \<and>
   stats (loadStats (Ok d1) s) = Some d1 \<and>
   storedAttachments (loadAttachments ty (Ok d2) s) = d2 \<and>
   candidates (loadCandidates q tg (Ok d3) s) = d3 \<and>
   jobs (loadJobs (Ok d4) s) = d4 \<and>
   storageHealth (loadStorageHealth (Ok d5) s) = Some d5 \<and>
   folders (loadFolders (Ok d6) s) = d6 \<and>
   matchResults (loadMatchResults j (Ok d7) s) = or_list (results d7) \<and>
   notifications (loadNotifications (Ok d8) n) = items_of d8 \<and>
   unreadCount (fst (loadNotificationCount (Ok d9) n)) = newCount_of d9 \<and>
   schedulerConfig (loadSchedulerConfig (Ok d10) c) = Some d10 \<and>
   emails (loadEmails f k q' fl (Ok d11) rc i) = or_list (ej_emails d11)"
proof -
  note fails = loadStats_failed [of r1 s] loadAttachments_failed [of r2 ty s]
    loadCandidates_failed [of r3 q tg s] loadJobs_failed [of r4 s]
    loadStorageHealth_failed [of r5 s] loadFolders_failed [of r6 s]
    loadMatchResults_failed [of r7 j s] loadNotifications_failed [of r8 n]
    loadNotificationCount_failed [of r9 n] loadSchedulerConfig_failed [of r10 c]
    loadEmails_failed [of r11 i f k q' fl rc]
  show ?thesis
    unfolding loaders_succeed loaders_succeed_other
    using fails by blast
qed

text \<open>Statistics on the screen, then every request answered with status 500.\<close>

definition with_stats :: recruit_state where
  "with_stats = loadStats (Ok (Json ''stats-1'')) recruit_init"

theorem C5_loaders_witness:
  "failed (HttpError ''500'' :: json response) \<and>
   stats with_stats = Some (Json ''stats-1'') \<and>
   stats (loadStats (HttpError ''500'') with_stats) = Some (Json ''stats-1'') \<and>
   notices (log with_stats) (log (loadStats (HttpError ''500'') with_stats)) =
     [Notify ''Failed to load stats'' ''error''] \<and>
   failed (HttpError ''500'' :: json list response) \<and>
   folders (loadFolders (HttpError ''500'') with_stats) = [] \<and>
   notices (log with_stats) (log (loadFolders (HttpError ''500'') with_stats)) = [] \<and>
   failed (HttpError ''500'' :: results_json response) \<and>
   matchResults (loadMatchResults ''j1'' (HttpError ''500'') with_stats) = [] \<and>
   failed (HttpError ''500'' :: candidate list response) \<and>
   candidates (loadCandidates [] [] (HttpError ''500'') with_stats) = [] \<and>
   failed (HttpError ''500'' :: notifs_json response) \<and>
   notifications (loadNotifications (HttpError ''500'') notif_init) = [] \<and>
   failed (HttpError ''500'' :: count_json response) \<and>
   unreadCount (fst (loadNotificationCount (HttpError ''500'') notif_init)) = 0 \<and>
   failed (HttpError ''500'' :: scheduler_json response) \<and>
   schedulerConfig (loadSchedulerConfig (HttpError ''500'') sched_init) = None \<and>
   failed (HttpError ''500'' :: emails_json response) \<and>
   notices (inbox_log inbox_init)
     (inbox_log (loadEmails None 0 [] january (HttpError ''500'') (HttpError ''500'') inbox_init)) =
     [Notify ''IMAP unavailable - showing cached emails'' ''error'']"
proof -
  have st: "stats with_stats = Some (Json ''stats-1'')" "folders with_stats = []"
    "candidates with_stats = []"
    by (simp_all add: with_stats_def loadStats_def Let_def send_def recruit_init_def)
  have ini: "notifications notif_init = []" "unreadCount notif_init = 0"
    "schedulerConfig sched_init = None"
    by (simp_all add: notif_init_def sched_init_def)
  show ?thesis
    using C5_loaders [where ?r1.0 = "HttpError ''500''" and ?r2.0 = "HttpError ''500''"
        and ?r3.0 = "HttpError ''500''" and ?r4.0 = "HttpError ''500''"
        and ?r5.0 = "HttpError ''500''" and ?r6.0 = "HttpError ''500''"
        and ?r7.0 = "HttpError ''500''" and ?r8.0 = "HttpError ''500''"
        and ?r9.0 = "HttpError ''500''" and ?r10.0 = "HttpError ''500''"
        and ?r11.0 = "HttpError ''500''" and s = with_stats and n = notif_init
        and c = sched_init and i = inbox_init and j = "''j1''" and q = "[]" and tg = "[]"
        and f = None and k = 0 and q' = "[]" and fl = january and rc = "HttpError ''500''"]
      st ini
    by simp
qed

end
